theory Spec2Isabelle
  imports Complex_Main "HOL-Library.Sublist" "HOL-Library.Multiset" "HOL-Library.AList"
begin

section \<open>Go values and library functions used by the collectors\<close>

subsection \<open>Numbers, instants and strings\<close>

text \<open>
  A \<open>float64\<close> is either a finite value, an infinity or the not-a-number value. The
  collectors never compute with these values: they store them, test them with
  \<open>math.IsNaN\<close> and hand them to the metrics sink, so finite values are kept as the
  rationals they denote.
\<close>

datatype float64 = Fin rat | PosInf | NegInf | NaN

definition IsNaN :: "float64 \<Rightarrow> bool" where
  "IsNaN f = (f = NaN)"

fun b2f :: "bool \<Rightarrow> float64" where
  "b2f True = Fin 1"
| "b2f False = Fin 0"

text \<open>
  An instant (\<open>time.Time\<close>) is a number of nanoseconds on the wall clock; a
  \<open>time.Duration\<close> is a number of nanoseconds. The stored expiry is parsed from a text
  and has no monotonic reading, so \<open>Before\<close> compares wall-clock instants; both are
  integers without bound, as no instant the collector meets is near the ends of the range
  of \<open>time.Time\<close>.
\<close>

type_synonym Time = int
type_synonym Duration = int

definition Minute :: Duration where
  "Minute = 60 * 1000000000"

definition Add :: "Time \<Rightarrow> Duration \<Rightarrow> Time" where
  "Add t d = t + d"

definition Before :: "Time \<Rightarrow> Time \<Rightarrow> bool" where
  "Before t u = (t < u)"

definition HasPrefix :: "string \<Rightarrow> string \<Rightarrow> bool" where
  "HasPrefix s p = prefix p s"

definition TrimPrefix :: "string \<Rightarrow> string \<Rightarrow> string" where
  "TrimPrefix s p = (if prefix p s then drop (length p) s else s)"

definition TrimRight :: "string \<Rightarrow> string \<Rightarrow> string" where
  "TrimRight s cutset = rev (dropWhile (\<lambda>c. c \<in> set cutset) (rev s))"

fun Contains :: "string \<Rightarrow> string \<Rightarrow> bool" where
  "Contains [] sub = (sub = [])"
| "Contains (c # cs) sub = (prefix sub (c # cs) \<or> Contains cs sub)"

fun Join :: "string list \<Rightarrow> string \<Rightarrow> string" where
  "Join [] sep = []"
| "Join [x] sep = x"
| "Join (x # y # ys) sep = x @ sep @ Join (y # ys) sep"

text \<open>
  \<open>strings.Replace(s, old, new, -1)\<close>: every non-overlapping occurrence of \<open>old\<close>,
  from the left, is replaced by \<open>new\<close>. An empty \<open>old\<close> matches before every character
  and at the end.
\<close>

function replace_from :: "string \<Rightarrow> string \<Rightarrow> string \<Rightarrow> string" where
  "replace_from [] old new = []"
| "replace_from (c # cs) old new =
     (if old \<noteq> [] \<and> prefix old (c # cs)
      then new @ replace_from (drop (length old) (c # cs)) old new
      else c # replace_from cs old new)"
  by pat_completeness auto
termination
  by (relation "measure (\<lambda>(s, old, new). length s)") auto

definition ReplaceAll :: "string \<Rightarrow> string \<Rightarrow> string \<Rightarrow> string" where
  "ReplaceAll s old new =
     (if old = [] then new @ concat (map (\<lambda>c. c # new) s) else replace_from s old new)"

fun show_nat :: "nat \<Rightarrow> string" where
  "show_nat n =
     (if n < 10 then [''0123456789'' ! n]
      else show_nat (n div 10) @ [''0123456789'' ! (n mod 10)])"

definition show_int :: "int \<Rightarrow> string" where
  "show_int i = (if i < 0 then ''-'' @ show_nat (nat (- i)) else show_nat (nat i))"

subsection \<open>JSON documents as the gjson library presents them\<close>

text \<open>
  The collectors read JSON through \<open>gjson\<close>. A located value is modelled by what the
  library lets the code observe of it. A number or a string carries the three views the
  accessors \<open>String()\<close>, \<open>Float()\<close> and \<open>Int()\<close> give of its text (the library
  formats and parses; the collectors do not); an array or object carries its raw text,
  which is what \<open>String()\<close> returns for it, and its elements or members in document
  order. A result that does not exist is \<open>None\<close>.
\<close>

datatype json =
    JNull
  | JBool bool
  | JNum string float64 int
  | JStr string float64 int
  | JArr string "json list"
  | JObj string "(string \<times> json) list"

type_synonym Result = "json option"

text \<open>A JSON string whose text is not a number: \<open>Float()\<close> and \<open>Int()\<close> give 0.\<close>

definition jstr :: "string \<Rightarrow> json" where
  "jstr s = JStr s (Fin 0) 0"

fun gj_Exists :: "Result \<Rightarrow> bool" where
  "gj_Exists None = False"
| "gj_Exists (Some j) = True"

text \<open>\<open>Get\<close> with a single plain key: the first member of that name of an object.\<close>

fun gj_Get :: "string \<Rightarrow> Result \<Rightarrow> Result" where
  "gj_Get k (Some (JObj raw kvs)) = map_of kvs k"
| "gj_Get k r = None"

text \<open>\<open>Get\<close> with a dotted path, given as its list of keys.\<close>

definition gj_GetPath :: "string list \<Rightarrow> Result \<Rightarrow> Result" where
  "gj_GetPath ks r = foldl (\<lambda>r k. gj_Get k r) r ks"

fun gj_String :: "Result \<Rightarrow> string" where
  "gj_String None = []"
| "gj_String (Some JNull) = []"
| "gj_String (Some (JBool b)) = (if b then ''true'' else ''false'')"
| "gj_String (Some (JNum s f i)) = s"
| "gj_String (Some (JStr s f i)) = s"
| "gj_String (Some (JArr raw xs)) = raw"
| "gj_String (Some (JObj raw kvs)) = raw"

fun gj_Float :: "Result \<Rightarrow> float64" where
  "gj_Float (Some (JBool True)) = Fin 1"
| "gj_Float (Some (JNum s f i)) = f"
| "gj_Float (Some (JStr s f i)) = f"
| "gj_Float r = Fin 0"

fun gj_Int :: "Result \<Rightarrow> int" where
  "gj_Int (Some (JBool True)) = 1"
| "gj_Int (Some (JNum s f i)) = i"
| "gj_Int (Some (JStr s f i)) = i"
| "gj_Int r = 0"

text \<open>
  \<open>ForEach\<close> calls its iterator on the members of an object (with the member name as
  key), on the elements of an array (with the index as key), once on a value of any other
  kind, and not at all on a result that does not exist. The list holds, per call of the
  iterator, what \<open>key.String()\<close> returns and the value.
\<close>

fun gj_ForEach :: "Result \<Rightarrow> (string \<times> json) list" where
  "gj_ForEach None = []"
| "gj_ForEach (Some (JObj raw kvs)) = kvs"
| "gj_ForEach (Some (JArr raw xs)) = zip (map show_nat [0 ..< length xs]) xs"
| "gj_ForEach (Some j) = [([], j)]"

text \<open>
  \<open>Array\<close>: the elements of an array, nothing for null or a result that does not exist,
  and a single-element list holding the value itself otherwise.
\<close>

fun gj_Array :: "Result \<Rightarrow> json list" where
  "gj_Array None = []"
| "gj_Array (Some JNull) = []"
| "gj_Array (Some (JArr raw xs)) = xs"
| "gj_Array (Some j) = [j]"

subsection \<open>HTTP exchanges and metrics\<close>

text \<open>
  What one call of the HTTP client gives back: a transport failure (with its message,
  timeouts included), or a response with a status code whose body either cannot be read
  or is read in full: then it is a text, together with the document gjson finds in it.
\<close>

datatype body = ReadError string | Content string json

datatype http_result = TransportError string | Response int body

record Desc =
  fqName :: string
  helpText :: string
  variableLabels :: "string list"

definition NewDesc :: "string \<Rightarrow> string \<Rightarrow> string list \<Rightarrow> Desc" where
  "NewDesc name h ls = \<lparr>fqName = name, helpText = h, variableLabels = ls\<rparr>"

datatype ValueType = CounterValue | GaugeValue | UntypedValue

record Metric =
  desc :: Desc
  valueType :: ValueType
  val :: float64
  labelValues :: "string list"

text \<open>A function that may panic instead of returning.\<close>

datatype 'a outcome = Panic | Return 'a

text \<open>
  \<open>utf8.ValidString\<close> on a string of bytes: every byte below \<open>0x80\<close> stands alone, and a
  lead byte is followed by as many continuation bytes as it announces, the first of them in
  the range that excludes overlong forms, surrogates and code points above \<open>U+10FFFF\<close>.
\<close>

definition continuation :: "nat \<Rightarrow> bool" where
  "continuation b \<longleftrightarrow> 128 \<le> b \<and> b \<le> 191"

fun valid_bytes :: "nat list \<Rightarrow> bool" where
  "valid_bytes [] = True"
| "valid_bytes (b # bs) =
     (if b < 128 then valid_bytes bs
      else if 194 \<le> b \<and> b \<le> 223
      then (case bs of
              b1 # rest \<Rightarrow> continuation b1 \<and> valid_bytes rest
            | _ \<Rightarrow> False)
      else if 224 \<le> b \<and> b \<le> 239
      then (case bs of
              b1 # b2 # rest \<Rightarrow>
                (if b = 224 then 160 \<le> b1 \<and> b1 \<le> 191
                 else if b = 237 then 128 \<le> b1 \<and> b1 \<le> 159
                 else continuation b1) \<and>
                continuation b2 \<and> valid_bytes rest
            | _ \<Rightarrow> False)
      else if 240 \<le> b \<and> b \<le> 244
      then (case bs of
              b1 # b2 # b3 # rest \<Rightarrow>
                (if b = 240 then 144 \<le> b1 \<and> b1 \<le> 191
                 else if b = 244 then 128 \<le> b1 \<and> b1 \<le> 143
                 else continuation b1) \<and>
                continuation b2 \<and> continuation b3 \<and> valid_bytes rest
            | _ \<Rightarrow> False)
      else False)"

definition ValidString :: "string \<Rightarrow> bool" where
  "ValidString s = valid_bytes (map of_char s)"

text \<open>
  \<open>prometheus.MustNewConstMetric\<close>. It panics when \<open>NewConstMetric\<close> returns an error:
  when the number of label values differs from the number of label names of the
  descriptor, or when a label value is not valid UTF-8. (The descriptors built below have
  well-formed metric and label names, so none of them carries an error of its own.)
\<close>

definition MustNewConstMetric :: "Desc \<Rightarrow> ValueType \<Rightarrow> float64 \<Rightarrow> string list \<Rightarrow> Metric outcome" where
  "MustNewConstMetric d t v ls =
     (if length ls \<noteq> length (variableLabels d) then Panic
      else if \<not> list_all ValidString ls then Panic
      else Return \<lparr>desc = d, valueType = t, val = v, labelValues = ls\<rparr>)"

text \<open>
  What a function that sends metrics on the channel has done when it ends: the metrics
  it has sent, in order, and whether it returned or panicked. \<open>send x\<close> is the statement
  \<open>ch <- x\<close> (nothing is sent when the construction of the metric panics), and
  \<open>then_emit a b\<close> is \<open>a\<close> followed by \<open>b\<close>: what follows a panic is not run.
\<close>

record emission =
  sent :: "Metric list"
  ended :: "unit outcome"

definition returned :: emission where
  "returned = \<lparr>sent = [], ended = Return ()\<rparr>"

definition send :: "Metric outcome \<Rightarrow> emission" where
  "send x = (case x of
               Panic \<Rightarrow> \<lparr>sent = [], ended = Panic\<rparr>
             | Return m \<Rightarrow> \<lparr>sent = [m], ended = Return ()\<rparr>)"

definition then_emit :: "emission \<Rightarrow> emission \<Rightarrow> emission" where
  "then_emit a b = (case ended a of
                      Panic \<Rightarrow> a
                    | Return u \<Rightarrow> \<lparr>sent = sent a @ sent b, ended = ended b\<rparr>)"

section \<open>The thermostat collector (package nest)\<close>

datatype nest_sentinel =
    errNon200Response
  | errFailedParsingURL
  | errFailedUnmarshalling
  | errFailedRequest
  | errFailedReadingBody

text \<open>\<open>errors.Wrap(sentinel, message)\<close>.\<close>

datatype nest_error = Wrap nest_sentinel string

record Thermostat =
  ID :: string
  Room :: string
  Label :: string
  Online :: bool
  AmbientTemp :: float64
  SetpointTemp :: float64
  Humidity :: float64
  Status :: string

text \<open>
  The configuration of the collector, with the fields the composition root fills in.
  The logger and the OAuth2 token only reach the HTTP client, whose behaviour is given
  from outside.
\<close>

record nest_Config =
  Timeout :: int
  APIURL :: string
  OAuthClientID :: string
  OAuthClientSecret :: string
  RefreshToken :: string
  ProjectID :: string
  ReplaceSpacesWithDashesInLabel :: bool

record nest_Metrics =
  up :: Desc
  online :: Desc
  ambientTemp :: Desc
  setpointTemp :: Desc
  humidity :: Desc
  heating :: Desc

record nest_Collector =
  url :: string
  metrics :: nest_Metrics

text \<open>
  The world outside the collector: whether \<open>url.ParseRequestURI\<close> rejects a URL (with
  its message), what the OAuth2-wrapped client answers to a GET, and what
  \<open>prometheus.Register\<close> answers.
\<close>

record nest_env =
  ParseRequestURI :: "string \<Rightarrow> string option"
  client_Get :: "string \<Rightarrow> http_result"
  Register :: "nest_Collector \<Rightarrow> string option"

definition nest_buildMetrics :: nest_Metrics where
  "nest_buildMetrics =
     (let nestLabels = [''id'', ''room'', ''label''] in
      \<lparr>up = NewDesc (Join [''nest'', ''up''] ''_'') ''Was talking to Nest API successful.'' [],
       online = NewDesc (Join [''nest'', ''online''] ''_'') ''Is the thermostat online.'' nestLabels,
       ambientTemp = NewDesc (Join [''nest'', ''ambient'', ''temperature'', ''celsius''] ''_'')
         ''Inside temperature.'' nestLabels,
       setpointTemp = NewDesc (Join [''nest'', ''setpoint'', ''temperature'', ''celsius''] ''_'')
         ''Setpoint temperature.'' nestLabels,
       humidity = NewDesc (Join [''nest'', ''humidity'', ''percent''] ''_'')
         ''Inside humidity.'' nestLabels,
       heating = NewDesc (Join [''nest'', ''heating''] ''_'') ''Is thermostat heating.'' nestLabels\<rparr>)"

text \<open>
  \<open>New\<close> keeps the request URL and the descriptors; nothing else of the configuration
  is stored in the collector.
\<close>

definition nest_New :: "nest_env \<Rightarrow> nest_Config \<Rightarrow> nest_error + nest_Collector" where
  "nest_New env cfg =
     (case ParseRequestURI env (APIURL cfg) of
        Some msg \<Rightarrow> Inl (Wrap errFailedParsingURL msg)
      | None \<Rightarrow>
          Inr \<lparr>url = TrimRight (APIURL cfg) ''/'' @ ''/enterprises/'' @ ProjectID cfg @ ''/devices/'',
               metrics = nest_buildMetrics\<rparr>)"

subsection \<open>Reading the devices\<close>

definition heatSetPoint :: "json \<Rightarrow> float64" where
  "heatSetPoint device =
     (let v = gj_GetPath [''traits'', ''sdm.devices.traits.ThermostatTemperatureSetpoint'',
                          ''heatCelsius''] (Some device)
      in if gj_Exists v then gj_Float v else NaN)"

text \<open>The loop over the parent relations, left at the first one that names a room.\<close>

fun room_of :: "json list \<Rightarrow> string" where
  "room_of [] = []"
| "room_of (parent # ps) =
     (if Contains (gj_String (gj_Get ''parent'' (Some parent))) ''/rooms/''
      then gj_String (gj_Get ''displayName'' (Some parent))
      else room_of ps)"

definition thermostat_of :: "json \<Rightarrow> Thermostat" where
  "thermostat_of device =
     \<lparr>ID = gj_String (gj_Get ''name'' (Some device)),
      Room = room_of (gj_Array (gj_Get ''parentRelations'' (Some device))),
      Label = gj_String (gj_GetPath [''traits'', ''sdm.devices.traits.Info'', ''customName'']
                (Some device)),
      Online = (gj_String (gj_GetPath [''traits'', ''sdm.devices.traits.Connectivity'', ''status'']
                 (Some device)) = ''ONLINE''),
      AmbientTemp = gj_Float (gj_GetPath [''traits'', ''sdm.devices.traits.Temperature'',
                      ''ambientTemperatureCelsius''] (Some device)),
      SetpointTemp = heatSetPoint device,
      Humidity = gj_Float (gj_GetPath [''traits'', ''sdm.devices.traits.Humidity'',
                   ''ambientHumidityPercent''] (Some device)),
      Status = gj_String (gj_GetPath [''traits'', ''sdm.devices.traits.ThermostatHvac'', ''status'']
                 (Some device))\<rparr>"

definition is_thermostat_type :: "json \<Rightarrow> bool" where
  "is_thermostat_type device =
     (gj_String (gj_Get ''type'' (Some device)) = ''sdm.devices.types.THERMOSTAT'')"

text \<open>The iteration over \<open>devices\<close>, appending to the thermostats read so far.\<close>

fun devices_loop :: "json list \<Rightarrow> Thermostat list \<Rightarrow> Thermostat list" where
  "devices_loop [] thermostats = thermostats"
| "devices_loop (device # ds) thermostats =
     (if \<not> is_thermostat_type device then devices_loop ds thermostats
      else devices_loop ds (thermostats @ [thermostat_of device]))"

definition getNestReadings :: "nest_env \<Rightarrow> nest_Collector \<Rightarrow> nest_error + Thermostat list" where
  "getNestReadings env c =
     (case client_Get env (url c) of
        TransportError msg \<Rightarrow> Inl (Wrap errFailedRequest msg)
      | Response code b \<Rightarrow>
          if code \<noteq> 200 then Inl (Wrap errNon200Response (''code: '' @ show_int code))
          else (case b of
                  ReadError msg \<Rightarrow> Inl (Wrap errFailedReadingBody msg)
                | Content bodyString doc \<Rightarrow>
                    (let thermostats =
                           devices_loop (map snd (gj_ForEach (gj_Get ''devices'' (Some doc)))) []
                     in if length thermostats = 0
                        then Inl (Wrap errFailedUnmarshalling ''no valid thermostats in devices list'')
                        else Inr thermostats)))"

subsection \<open>Emitting the metrics\<close>

definition labels_of :: "Thermostat \<Rightarrow> string list" where
  "labels_of therm = [ID therm, Room therm, ReplaceAll (Label therm) '' '' ''-'']"

text \<open>
  One round of the loop over the thermostats: the metrics it sends, in order. A round that
  panics ends \<open>Collect\<close>.
\<close>

definition collect_thermostat :: "nest_Metrics \<Rightarrow> Thermostat \<Rightarrow> emission" where
  "collect_thermostat m therm =
     (let labels = labels_of therm in
      then_emit (send (MustNewConstMetric (online m) GaugeValue (b2f (Online therm)) labels))
      (if \<not> Online therm then returned
       else then_emit (send (MustNewConstMetric (ambientTemp m) GaugeValue (AmbientTemp therm) labels))
           (then_emit
              (if \<not> IsNaN (SetpointTemp therm)
               then send (MustNewConstMetric (setpointTemp m) GaugeValue (SetpointTemp therm) labels)
               else returned)
           (then_emit (send (MustNewConstMetric (humidity m) GaugeValue (Humidity therm) labels))
              (send (MustNewConstMetric (heating m) GaugeValue (b2f (Status therm = ''HEATING''))
                 labels))))))"



subsection \<open>The composition root's registration of the thermostat collector\<close>

text \<open>
  The part of \<open>ExporterConfig\<close> that \<open>registerNestCollector\<close> reads. The label policy
  is a pointer that may be nil; the other fields are dereferenced without a check.
\<close>

record ExporterConfig =
  cfg_Timeout :: int
  NestURL :: string
  NestOAuthClientID :: string
  NestOAuthClientSecret :: string
  NestProjectID :: string
  NestRefreshToken :: string
  NestLabelSpaceToDash :: "bool option"

definition nestConfig_of :: "ExporterConfig \<Rightarrow> nest_Config" where
  "nestConfig_of cfg =
     (let replaceSpacesWithDashesInLabel =
            (case NestLabelSpaceToDash cfg of None \<Rightarrow> False | Some b \<Rightarrow> b)
      in \<lparr>Timeout = cfg_Timeout cfg,
          APIURL = NestURL cfg,
          OAuthClientID = NestOAuthClientID cfg,
          OAuthClientSecret = NestOAuthClientSecret cfg,
          RefreshToken = NestRefreshToken cfg,
          ProjectID = NestProjectID cfg,
          ReplaceSpacesWithDashesInLabel = replaceSpacesWithDashesInLabel\<rparr>)"

text \<open>
  \<open>registerNestCollector\<close>: the error it returns, if any, and the collector it handed to
  the registry.
\<close>

definition registerNestCollector ::
  "nest_env \<Rightarrow> ExporterConfig \<Rightarrow> (nest_error + string) option \<times> nest_Collector option" where
  "registerNestCollector env cfg =
     (case nest_New env (nestConfig_of cfg) of
        Inl err \<Rightarrow> (Some (Inl err), None)
      | Inr nestCollector \<Rightarrow>
          (map_option Inr (Register env nestCollector), Some nestCollector))"

section \<open>The sensor collector (package nestapp)\<close>

datatype app_sentinel =
    app_errNon200Response
  | app_errFailedUnmarshalling
  | app_errFailedRequest
  | app_errFailedReadingBody

text \<open>
  The errors of the package: an error handed back by a library call (with its message),
  \<open>fmt.Errorf\<close> with a plain message, \<open>fmt.Errorf\<close> wrapping a cause behind a text
  (\<open>"text: %w"\<close>), and \<open>errors.Wrap\<close> of a sentinel.
\<close>

datatype app_error =
    Lib string
  | Errorf string
  | Errorf_w string app_error
  | AppWrap app_sentinel string

record app_Config =
  app_Timeout :: int
  AuthURL :: string
  AuthCookies :: string

text \<open>The collector with its session: token, expiry instant and user identifier.\<close>

record app_Collector =
  config :: app_Config
  accessToken :: string
  accessTokenValidUntil :: Time
  userId :: string

record Request =
  Method :: string
  URL :: string
  Header :: "(string \<times> string) list"
  Body :: string

text \<open>
  The world outside the collector during one call: the two readings of the clock that
  \<open>getReadings\<close> compares with the expiry (the second is taken after a failed
  re-authentication), whether \<open>http.NewRequest\<close> rejects a method and URL (with its
  message), what the client answers to a request, and what \<open>time.Parse\<close> makes of a
  text in the RFC 3339 layout.
\<close>

record app_env =
  Now1 :: Time
  Now2 :: Time
  NewRequest :: "string \<Rightarrow> string \<Rightarrow> string option"
  client_Do :: "Request \<Rightarrow> http_result"
  Parse_RFC3339 :: "string \<Rightarrow> string + Time"

subsection \<open>Authentication\<close>

text \<open>
  Each function returns, next to its result, the requests it handed to the client, in
  order.
\<close>

definition googleTokenRequest :: "app_Collector \<Rightarrow> Request" where
  "googleTokenRequest c =
     \<lparr>Method = ''GET'', URL = AuthURL (config c),
      Header = [(''Cookie'', AuthCookies (config c)), (''X-Requested-With'', ''XmlHttpRequest'')],
      Body = []\<rparr>"

definition getGoogleAccessToken ::
  "app_env \<Rightarrow> app_Collector \<Rightarrow> (app_error + string) \<times> Request list" where
  "getGoogleAccessToken env c =
     (case NewRequest env ''GET'' (AuthURL (config c)) of
        Some msg \<Rightarrow> (Inl (Errorf_w ''Failed to create GET request'' (Lib msg)), [])
      | None \<Rightarrow>
          (let req = googleTokenRequest c in
           case client_Do env req of
             TransportError msg \<Rightarrow> (Inl (Errorf_w ''Request failed'' (Lib msg)), [req])
           | Response code b \<Rightarrow>
               (case b of
                  ReadError msg \<Rightarrow> (Inl (Errorf_w ''Failed to read response body'' (Lib msg)), [req])
                | Content bodyString doc \<Rightarrow>
                    (let errorId = gj_Get ''error'' (Some doc) in
                     if gj_Exists errorId
                     then (Inl (Errorf (gj_String errorId @ '': '' @
                                  gj_String (gj_Get ''error_description'' (Some doc)))), [req])
                     else (let accessToken = gj_String (gj_Get ''access_token'' (Some doc)) in
                           if accessToken = []
                           then (Inl (Errorf ''No access token in the response''), [req])
                           else (Inr accessToken, [req]))))))"

definition jwtRequestBody :: "string \<Rightarrow> string" where
  \<open>jwtRequestBody googleAccessToken =
     ''{"embed_google_oauth_access_token": true,\<newline>"expire_after": "3600s",\<newline>"google_oauth_access_token": "'' @
     googleAccessToken @ ''",\<newline>"policy_id": "authproxy-oauth-policy"\<newline>}''\<close>

definition jwtRequest :: "string \<Rightarrow> Request" where
  "jwtRequest googleAccessToken =
     \<lparr>Method = ''POST'', URL = ''https://nestauthproxyservice-pa.googleapis.com/v1/issue_jwt'',
      Header = [(''Authorization'', ''Bearer '' @ googleAccessToken),
                (''Content-Type'', ''application/json''),
                (''X-Requested-With'', ''XmlHttpRequest'')],
      Body = jwtRequestBody googleAccessToken\<rparr>"

definition getNestJwt ::
  "app_env \<Rightarrow> app_Collector \<Rightarrow> string \<Rightarrow> (app_error + string \<times> string \<times> Time) \<times> Request list" where
  "getNestJwt env c googleAccessToken =
     (case NewRequest env ''POST'' ''https://nestauthproxyservice-pa.googleapis.com/v1/issue_jwt'' of
        Some msg \<Rightarrow> (Inl (Errorf_w ''Failed to create POST request'' (Lib msg)), [])
      | None \<Rightarrow>
          (let req = jwtRequest googleAccessToken in
           case client_Do env req of
             TransportError msg \<Rightarrow> (Inl (Errorf_w ''Request failed'' (Lib msg)), [req])
           | Response code b \<Rightarrow>
               (case b of
                  ReadError msg \<Rightarrow> (Inl (Errorf_w ''Failed to read response body'' (Lib msg)), [req])
                | Content bodyString doc \<Rightarrow>
                    (let errorId = gj_Get ''error'' (Some doc) in
                     if gj_Exists errorId
                     then (Inl (Errorf (gj_String errorId @ '': '' @
                                  gj_String (gj_Get ''error_description'' (Some doc)))), [req])
                     else (let jwt = gj_String (gj_Get ''jwt'' (Some doc)) in
                       if jwt = [] then (Inl (Errorf (''No JWT in the response: '' @ bodyString)), [req])
                       else (let uid = gj_String (gj_GetPath [''claims'', ''subject'', ''nestId'', ''id'']
                                         (Some doc)) in
                         if uid = []
                         then (Inl (Errorf (''No user ID (claims.subject.nestId.id) in the response: '' @
                                      bodyString)), [req])
                         else (let expirationStr =
                                     gj_String (gj_GetPath [''claims'', ''expirationTime''] (Some doc)) in
                           if expirationStr = []
                           then (Inl (Errorf (''No access token expiration time (claims.expirationTime) in the response: '' @
                                        bodyString)), [req])
                           else (case Parse_RFC3339 env expirationStr of
                                   Inl msg \<Rightarrow>
                                     (Inl (Errorf_w (''Failed to parse access token expiration time ('' @
                                             expirationStr @ '')'') (Lib msg)), [req])
                                 | Inr expirationInstant \<Rightarrow>
                                     (Inr (jwt, uid, expirationInstant), [req])))))))))"

text \<open>
  \<open>reauth\<close>: the error, if any, the collector afterwards, and the requests made. The three
  session fields are assigned only after both steps have succeeded.
\<close>

definition reauth :: "app_env \<Rightarrow> app_Collector \<Rightarrow> app_error option \<times> app_Collector \<times> Request list" where
  "reauth env c =
     (case getGoogleAccessToken env c of
        (Inl err, log1) \<Rightarrow>
          (Some (Errorf_w ''Failed to get Google Account access token'' err), c, log1)
      | (Inr googleAccessToken, log1) \<Rightarrow>
          (case getNestJwt env c googleAccessToken of
             (Inl err, log2) \<Rightarrow>
               (Some (Errorf_w ''Failed to get Nest access token'' err), c, log1 @ log2)
           | (Inr (jwt, uid, jwtExpirationInstant), log2) \<Rightarrow>
               (None,
                c\<lparr>accessToken := jwt, userId := uid, accessTokenValidUntil := jwtExpirationInstant\<rparr>,
                log1 @ log2)))"

text \<open>The zero \<open>time.Time\<close>: the first instant of year 1, in nanoseconds before 1970.\<close>

definition zeroTime :: Time where
  "zeroTime = - 62135596800 * 1000000000"

definition app_New :: "app_env \<Rightarrow> app_Config \<Rightarrow> (app_error + app_Collector) \<times> Request list" where
  "app_New env cfg =
     (let collector = \<lparr>config = cfg, accessToken = [], accessTokenValidUntil = zeroTime, userId = []\<rparr>
      in case reauth env collector of
           (Some err, c', reqs) \<Rightarrow> (Inl (Errorf_w ''Failed to authenticate to Nest API'' err), reqs)
         | (None, c', reqs) \<Rightarrow> (Inr c', reqs))"

subsection \<open>Readings\<close>

record NestTemperatureSensor =
  SerialNumber :: string
  StructureName :: string
  WhereName :: string
  LastUpdatedAt :: Time
  Temperature :: float64
  BatteryLevel :: int

text \<open>
  A Go map is kept as an association list with at most one entry per key: assigning to
  a key replaces its entry or adds one, and a lookup of a missing key gives the zero value.
\<close>

record Structure =
  Id :: string
  Name :: string
  WhereNames :: "(string \<times> string) list"
  OutsideTemperature :: float64

definition zero_Structure :: Structure where
  "zero_Structure = \<lparr>Id = [], Name = [], WhereNames = [], OutsideTemperature = Fin 0\<rparr>"

definition index_Structure :: "(string \<times> Structure) list \<Rightarrow> string \<Rightarrow> Structure" where
  "index_Structure structures k =
     (case map_of structures k of None \<Rightarrow> zero_Structure | Some s \<Rightarrow> s)"

definition index_string :: "(string \<times> string) list \<Rightarrow> string \<Rightarrow> string" where
  "index_string m k = (case map_of m k of None \<Rightarrow> [] | Some s \<Rightarrow> s)"

record Readings =
  structures :: "Structure list"
  sensors :: "NestTemperatureSensor list"

text \<open>First iteration over the buckets: one round, on the map of structures so far.\<close>

definition structure_step ::
  "json \<Rightarrow> (string \<times> Structure) list \<Rightarrow> (string \<times> Structure) list" where
  "structure_step obj structs =
     (let objKey = gj_String (gj_Get ''object_key'' (Some obj)) in
      if HasPrefix objKey ''structure.''
      then (let v = gj_Get ''value'' (Some obj) in
            if gj_Exists v
            then (let id = TrimPrefix objKey ''structure.'' in
                  AList.update id
                    \<lparr>Id = id, Name = gj_String (gj_Get ''name'' v), WhereNames = [],
                     OutsideTemperature = NaN\<rparr> structs)
            else structs)
      else structs)"

text \<open>The inner iteration over the \<open>wheres\<close> of a bucket, on the names so far.\<close>

definition where_entry_step :: "json \<Rightarrow> (string \<times> string) list \<Rightarrow> (string \<times> string) list" where
  "where_entry_step obj names =
     (let whereId = gj_Get ''where_id'' (Some obj) in
      if gj_Exists whereId
      then AList.update (gj_String whereId) (gj_String (gj_Get ''name'' (Some obj))) names
      else names)"

text \<open>
  Second iteration. The names are written into the map that the stored structure
  refers to, so the stored structure sees them.
\<close>

definition where_step ::
  "json \<Rightarrow> (string \<times> Structure) list \<Rightarrow> (string \<times> Structure) list" where
  "where_step obj structs =
     (let objKey = gj_String (gj_Get ''object_key'' (Some obj)) in
      if HasPrefix objKey ''where.''
      then (let v = gj_Get ''value'' (Some obj) in
            if gj_Exists v
            then (let id = TrimPrefix objKey ''where.'' in
                  case map_of structs id of
                    Some structure \<Rightarrow>
                      AList.update id
                        (structure\<lparr>WhereNames :=
                           fold where_entry_step (map snd (gj_ForEach (gj_Get ''wheres'' v)))
                             (WhereNames structure)\<rparr>) structs
                  | None \<Rightarrow> structs)
            else structs)
      else structs)"

definition Unix :: "int \<Rightarrow> int \<Rightarrow> Time" where
  "Unix sec nsec = sec * 1000000000 + nsec"

text \<open>Third iteration: one round, on the sensors so far.\<close>

definition sensor_step ::
  "(string \<times> Structure) list \<Rightarrow> json \<Rightarrow> NestTemperatureSensor list \<Rightarrow> NestTemperatureSensor list" where
  "sensor_step structs obj sens =
     (let objKey = gj_String (gj_Get ''object_key'' (Some obj)) in
      if HasPrefix objKey ''kryptonite.''
      then (let v = gj_Get ''value'' (Some obj) in
            if gj_Exists v
            then (let structure = index_Structure structs (gj_String (gj_Get ''structure_id'' v)) in
                  sens @
                  [\<lparr>SerialNumber = gj_String (gj_Get ''serial_number'' v),
                    StructureName = Name structure,
                    WhereName = index_string (WhereNames structure) (gj_String (gj_Get ''where_id'' v)),
                    LastUpdatedAt = Unix (gj_Int (gj_Get ''last_updated_at'' v)) 0,
                    Temperature = gj_Float (gj_Get ''current_temperature'' v),
                    BatteryLevel = gj_Int (gj_Get ''battery_level'' v)\<rparr>])
            else sens)
      else sens)"

text \<open>The iteration over \<open>weather_for_structures\<close>: one round, on key and value.\<close>

definition weather_step ::
  "string \<times> json \<Rightarrow> (string \<times> Structure) list \<Rightarrow> (string \<times> Structure) list" where
  "weather_step kv structs =
     (let key = fst kv; value = snd kv in
      if HasPrefix key ''structure.''
      then (let structureId = TrimPrefix key ''structure.'' in
            case map_of structs structureId of
              Some structure \<Rightarrow>
                (let current = gj_Get ''current'' (Some value) in
                 if gj_Exists current
                 then (let tempC = gj_Get ''temp_c'' current in
                       if gj_Exists tempC
                       then AList.update structureId
                              (structure\<lparr>OutsideTemperature := gj_Float tempC\<rparr>) structs
                       else structs)
                 else structs)
            | None \<Rightarrow> structs)
      else structs)"

text \<open>
  The reading of the response body in \<open>getReadings\<close>. The final list of structures is
  filled by iterating over the Go map, in an order Go leaves open; here it is the order of
  the association list.
\<close>

definition parseReadings :: "json \<Rightarrow> Readings" where
  "parseReadings doc =
     (let buckets = map snd (gj_ForEach (gj_Get ''updated_buckets'' (Some doc)));
          structs1 = fold structure_step buckets [];
          structs2 = fold where_step buckets structs1;
          sens = fold (sensor_step structs2) buckets [];
          weatherForStructures = gj_Get ''weather_for_structures'' (Some doc);
          structs3 = (if gj_Exists weatherForStructures
                      then fold weather_step (gj_ForEach weatherForStructures) structs2
                      else structs2)
      in \<lparr>structures = map snd structs3, sensors = sens\<rparr>)"

definition appLaunchBody :: string where
  \<open>appLaunchBody =
     ''{"known_bucket_types":["structure","where","kryptonite"],"known_bucket_versions":[]}''\<close>

definition appLaunchURL :: "app_Collector \<Rightarrow> string" where
  "appLaunchURL c = ''https://home.nest.com/api/0.1/user/'' @ userId c @ ''/app_launch''"

definition appLaunchRequest :: "app_Collector \<Rightarrow> Request" where
  "appLaunchRequest c =
     \<lparr>Method = ''POST'', URL = appLaunchURL c,
      Header = [(''Authorization'', ''Basic '' @ accessToken c),
                (''Cookie'', ''G_ENABLED_IDPS=google; eu_cookie_accepted=1; viewer-volume=0.5; cztoken='' @
                   accessToken c @ ''; user_token='' @ accessToken c),
                (''X-nl-user-id'', userId c),
                (''X-nl-protocol-version'', ''1'')],
      Body = appLaunchBody\<rparr>"

text \<open>
  The data request of \<open>getReadings\<close> and the reading of its answer, with the session as
  it stands. The error of \<open>http.NewRequest\<close> is not looked at: when it rejects the URL the
  request is nil and setting its first header panics.
\<close>

definition requestReadings ::
  "app_env \<Rightarrow> app_Collector \<Rightarrow> (app_error + Readings) outcome \<times> Request list" where
  "requestReadings env c =
     (case NewRequest env ''POST'' (appLaunchURL c) of
        Some msg \<Rightarrow> (Panic, [])
      | None \<Rightarrow>
          (let req = appLaunchRequest c in
           case client_Do env req of
             TransportError msg \<Rightarrow> (Return (Inl (AppWrap app_errFailedRequest msg)), [req])
           | Response code b \<Rightarrow>
               if code \<noteq> 200
               then (Return (Inl (AppWrap app_errNon200Response (''code: '' @ show_int code))), [req])
               else (case b of
                       ReadError msg \<Rightarrow> (Return (Inl (AppWrap app_errFailedReadingBody msg)), [req])
                     | Content bodyString doc \<Rightarrow> (Return (Inr (parseReadings doc)), [req]))))"

text \<open>
  \<open>getReadings\<close>: what it returns, the collector afterwards, and the requests made.
\<close>

definition getReadings ::
  "app_env \<Rightarrow> app_Collector \<Rightarrow> (app_error + Readings) outcome \<times> app_Collector \<times> Request list" where
  "getReadings env c =
     (if \<not> Before (Now1 env) (Add (accessTokenValidUntil c) (- 2 * Minute))
      then (case reauth env c of
              (Some err, c', reqs) \<Rightarrow>
                if \<not> Before (Now2 env) (accessTokenValidUntil c')
                then (Return (Inl (Errorf_w ''Failed to re-authenticate to Nest API'' err)), c', reqs)
                else (case requestReadings env c' of (r, reqs') \<Rightarrow> (r, c', reqs @ reqs'))
            | (None, c', reqs) \<Rightarrow>
                (case requestReadings env c' of (r, reqs') \<Rightarrow> (r, c', reqs @ reqs')))
      else (case requestReadings env c of (r, reqs') \<Rightarrow> (r, c, reqs')))"

section \<open>Notions used to state the properties\<close>

subsection \<open>Buckets of the app response\<close>

text \<open>
  The buckets that the three iterations of \<open>getReadings\<close> visit, and the parts of a
  bucket that they read: its key, its value, a member of its value as text.
\<close>

definition buckets_of :: "json \<Rightarrow> json list" where
  "buckets_of doc = map snd (gj_ForEach (gj_Get ''updated_buckets'' (Some doc)))"

definition bucket_key :: "json \<Rightarrow> string" where
  "bucket_key obj = gj_String (gj_Get ''object_key'' (Some obj))"

definition bucket_value :: "json \<Rightarrow> Result" where
  "bucket_value obj = gj_Get ''value'' (Some obj)"

definition bucket_field :: "string \<Rightarrow> json \<Rightarrow> string" where
  "bucket_field f obj = gj_String (gj_Get f (bucket_value obj))"

text \<open>A bucket with the given key that has a value: the buckets the iterations act on.\<close>

definition has_key_value :: "string \<Rightarrow> json \<Rightarrow> bool" where
  "has_key_value k obj = (bucket_key obj = k \<and> gj_Exists (bucket_value obj))"

definition is_sensor_bucket :: "json \<Rightarrow> bool" where
  "is_sensor_bucket obj = (HasPrefix (bucket_key obj) ''kryptonite.'' \<and> gj_Exists (bucket_value obj))"

definition is_structure_or_where :: "json \<Rightarrow> bool" where
  "is_structure_or_where obj =
     (HasPrefix (bucket_key obj) ''structure.'' \<or> HasPrefix (bucket_key obj) ''where.'')"

text \<open>The entries of the \<open>wheres\<close> list of a bucket, and what an entry says.\<close>

definition bucket_wheres :: "json \<Rightarrow> json list" where
  "bucket_wheres obj = map snd (gj_ForEach (gj_Get ''wheres'' (bucket_value obj)))"

definition has_where_id :: "string \<Rightarrow> json \<Rightarrow> bool" where
  "has_where_id w e =
     (gj_Exists (gj_Get ''where_id'' (Some e)) \<and> gj_String (gj_Get ''where_id'' (Some e)) = w)"

definition entry_name :: "json \<Rightarrow> string" where
  "entry_name e = gj_String (gj_Get ''name'' (Some e))"

text \<open>
  The names of a sensor are those given in the buckets: whenever a structure bucket for the
  structure id of the sensor bucket \<open>kb\<close> is among \<open>bs\<close>, the sensor carries the name in
  it; and whenever moreover a where bucket for that structure is among \<open>bs\<close> and gives
  one name to the where id of the sensor bucket, the sensor carries that name.
\<close>

definition names_as_given :: "json list \<Rightarrow> json \<Rightarrow> NestTemperatureSensor \<Rightarrow> bool" where
  "names_as_given bs kb s =
     (\<forall>sb \<in> set bs.
        has_key_value (''structure.'' @ bucket_field ''structure_id'' kb) sb \<longrightarrow>
        StructureName s = bucket_field ''name'' sb \<and>
        (\<forall>wb \<in> set bs.
           has_key_value (''where.'' @ bucket_field ''structure_id'' kb) wb \<longrightarrow>
           (\<forall>e \<in> set (bucket_wheres wb).
              has_where_id (bucket_field ''where_id'' kb) e \<and>
              (\<forall>e' \<in> set (bucket_wheres wb).
                 has_where_id (bucket_field ''where_id'' kb) e' \<longrightarrow> entry_name e' = entry_name e) \<longrightarrow>
              WhereName s = entry_name e)))"

subsection \<open>The iterations in closed form\<close>

text \<open>
  The structure that the first iteration stores for a bucket, the names that the second
  iteration collects from a list of where buckets, the sensor that the third iteration
  appends for a bucket, and the map of structures after the first two iterations.
\<close>

definition new_Structure :: "string \<Rightarrow> json \<Rightarrow> Structure" where
  "new_Structure sid obj =
     \<lparr>Id = sid, Name = gj_String (gj_Get ''name'' (bucket_value obj)), WhereNames = [],
      OutsideTemperature = NaN\<rparr>"

definition wheres_of :: "json list \<Rightarrow> (string \<times> string) list \<Rightarrow> (string \<times> string) list" where
  "wheres_of wbs names = fold (\<lambda>obj. fold where_entry_step (bucket_wheres obj)) wbs names"

definition sensor_of :: "(string \<times> Structure) list \<Rightarrow> json \<Rightarrow> NestTemperatureSensor" where
  "sensor_of structs obj =
     (let v = bucket_value obj;
          structure = index_Structure structs (gj_String (gj_Get ''structure_id'' v))
      in \<lparr>SerialNumber = gj_String (gj_Get ''serial_number'' v),
          StructureName = Name structure,
          WhereName = index_string (WhereNames structure) (gj_String (gj_Get ''where_id'' v)),
          LastUpdatedAt = Unix (gj_Int (gj_Get ''last_updated_at'' v)) 0,
          Temperature = gj_Float (gj_Get ''current_temperature'' v),
          BatteryLevel = gj_Int (gj_Get ''battery_level'' v)\<rparr>)"

definition resolved :: "json list \<Rightarrow> (string \<times> Structure) list" where
  "resolved bs = fold where_step bs (fold structure_step bs [])"

section \<open>Example inputs\<close>

subsection \<open>A devices response with a cooling thermostat, a camera and an offline thermostat\<close>

definition example_cooling_thermostat :: json where
  \<open>example_cooling_thermostat =
     JObj (''{"name":"enterprises/p1/devices/d1","type":"sdm.devices.types.THERMOST'' @
        ''AT","traits":{"sdm.devices.traits.Info":{"customName":"Living Room"},"'' @
        ''sdm.devices.traits.Connectivity":{"status":"ONLINE"},"sdm.devices.trai'' @
        ''ts.Temperature":{"ambientTemperatureCelsius":23.5},"sdm.devices.traits'' @
        ''.Humidity":{"ambientHumidityPercent":55},"sdm.devices.traits.Thermosta'' @
        ''tHvac":{"status":"COOLING"}},"parentRelations":[{"parent":"enterprises'' @
        ''/p1/structures/s1/rooms/r1","displayName":"Lounge"}]}'')
       [(''name'', jstr ''enterprises/p1/devices/d1''),
        (''type'', jstr ''sdm.devices.types.THERMOSTAT''),
        (''traits'', JObj (''{"sdm.devices.traits.Info":{"customName":"Living Room"},"sdm.devices.t'' @
           ''raits.Connectivity":{"status":"ONLINE"},"sdm.devices.traits.Temperatur'' @
           ''e":{"ambientTemperatureCelsius":23.5},"sdm.devices.traits.Humidity":{"'' @
           ''ambientHumidityPercent":55},"sdm.devices.traits.ThermostatHvac":{"stat'' @
           ''us":"COOLING"}}'')
          [(''sdm.devices.traits.Info'', JObj ''{"customName":"Living Room"}''
             [(''customName'', jstr ''Living Room'')]),
           (''sdm.devices.traits.Connectivity'', JObj ''{"status":"ONLINE"}''
             [(''status'', jstr ''ONLINE'')]),
           (''sdm.devices.traits.Temperature'', JObj ''{"ambientTemperatureCelsius":23.5}''
             [(''ambientTemperatureCelsius'', JNum ''23.5'' (Fin (47 / 2)) 23)]),
           (''sdm.devices.traits.Humidity'', JObj ''{"ambientHumidityPercent":55}''
             [(''ambientHumidityPercent'', JNum ''55'' (Fin 55) 55)]),
           (''sdm.devices.traits.ThermostatHvac'', JObj ''{"status":"COOLING"}''
             [(''status'', jstr ''COOLING'')])]),
        (''parentRelations'', JArr (''[{"parent":"enterprises/p1/structures/s1/rooms/r1","displayName":"Loun'' @
           ''ge"}]'')
          [JObj (''{"parent":"enterprises/p1/structures/s1/rooms/r1","displayName":"Loung'' @
              ''e"}'')
             [(''parent'', jstr ''enterprises/p1/structures/s1/rooms/r1''),
              (''displayName'', jstr ''Lounge'')]])]\<close>

definition example_camera :: json where
  \<open>example_camera =
     JObj ''{"name":"enterprises/p1/devices/d2","type":"sdm.devices.types.CAMERA"}''
       [(''name'', jstr ''enterprises/p1/devices/d2''),
        (''type'', jstr ''sdm.devices.types.CAMERA'')]\<close>

definition example_offline_thermostat :: json where
  \<open>example_offline_thermostat =
     JObj (''{"name":"enterprises/p1/devices/d3","type":"sdm.devices.types.THERMOST'' @
        ''AT","traits":{"sdm.devices.traits.Info":{"customName":"Attic"},"sdm.de'' @
        ''vices.traits.Connectivity":{"status":"OFFLINE"},"sdm.devices.traits.Th'' @
        ''ermostatTemperatureSetpoint":{"heatCelsius":18}}}'')
       [(''name'', jstr ''enterprises/p1/devices/d3''),
        (''type'', jstr ''sdm.devices.types.THERMOSTAT''),
        (''traits'', JObj (''{"sdm.devices.traits.Info":{"customName":"Attic"},"sdm.devices.traits.'' @
           ''Connectivity":{"status":"OFFLINE"},"sdm.devices.traits.ThermostatTempe'' @
           ''ratureSetpoint":{"heatCelsius":18}}'')
          [(''sdm.devices.traits.Info'', JObj ''{"customName":"Attic"}''
             [(''customName'', jstr ''Attic'')]),
           (''sdm.devices.traits.Connectivity'', JObj ''{"status":"OFFLINE"}''
             [(''status'', jstr ''OFFLINE'')]),
           (''sdm.devices.traits.ThermostatTemperatureSetpoint'', JObj ''{"heatCelsius":18}''
             [(''heatCelsius'', JNum ''18'' (Fin 18) 18)])])]\<close>

definition example_devices_doc :: json where
  \<open>example_devices_doc =
     JObj (''{"devices":[{"name":"enterprises/p1/devices/d1","type":"sdm.devices.ty'' @
        ''pes.THERMOSTAT","traits":{"sdm.devices.traits.Info":{"customName":"Liv'' @
        ''ing Room"},"sdm.devices.traits.Connectivity":{"status":"ONLINE"},"sdm.'' @
        ''devices.traits.Temperature":{"ambientTemperatureCelsius":23.5},"sdm.de'' @
        ''vices.traits.Humidity":{"ambientHumidityPercent":55},"sdm.devices.trai'' @
        ''ts.ThermostatHvac":{"status":"COOLING"}},"parentRelations":[{"parent":'' @
        ''"enterprises/p1/structures/s1/rooms/r1","displayName":"Lounge"}]},{"na'' @
        ''me":"enterprises/p1/devices/d2","type":"sdm.devices.types.CAMERA"},{"n'' @
        ''ame":"enterprises/p1/devices/d3","type":"sdm.devices.types.THERMOSTAT"'' @
        '',"traits":{"sdm.devices.traits.Info":{"customName":"Attic"},"sdm.devic'' @
        ''es.traits.Connectivity":{"status":"OFFLINE"},"sdm.devices.traits.Therm'' @
        ''ostatTemperatureSetpoint":{"heatCelsius":18}}}]}'')
       [(''devices'', JArr (''[{"name":"enterprises/p1/devices/d1","type":"sdm.devices.types.THERMOS'' @
           ''TAT","traits":{"sdm.devices.traits.Info":{"customName":"Living Room"},'' @
           ''"sdm.devices.traits.Connectivity":{"status":"ONLINE"},"sdm.devices.tra'' @
           ''its.Temperature":{"ambientTemperatureCelsius":23.5},"sdm.devices.trait'' @
           ''s.Humidity":{"ambientHumidityPercent":55},"sdm.devices.traits.Thermost'' @
           ''atHvac":{"status":"COOLING"}},"parentRelations":[{"parent":"enterprise'' @
           ''s/p1/structures/s1/rooms/r1","displayName":"Lounge"}]},{"name":"enterp'' @
           ''rises/p1/devices/d2","type":"sdm.devices.types.CAMERA"},{"name":"enter'' @
           ''prises/p1/devices/d3","type":"sdm.devices.types.THERMOSTAT","traits":{'' @
           ''"sdm.devices.traits.Info":{"customName":"Attic"},"sdm.devices.traits.C'' @
           ''onnectivity":{"status":"OFFLINE"},"sdm.devices.traits.ThermostatTemper'' @
           ''atureSetpoint":{"heatCelsius":18}}}]'')
          [example_cooling_thermostat,
           example_camera,
           example_offline_thermostat])]\<close>

definition example_camera_doc :: json where
  \<open>example_camera_doc =
     JObj (''{"devices":[{"name":"enterprises/p1/devices/d2","type":"sdm.devices.ty'' @
        ''pes.CAMERA"}]}'')
       [(''devices'', JArr (''[{"name":"enterprises/p1/devices/d2","type":"sdm.devices.types.CAMERA"'' @
           ''}]'')
          [example_camera])]\<close>


text \<open>
  A devices response with one offline thermostat whose custom name holds the byte
  \<open>0xFF\<close>, which no UTF-8 text contains.
\<close>

definition example_bad_label_thermostat :: json where
  \<open>example_bad_label_thermostat =
     JObj (''{"name":"enterprises/p1/devices/d4","type":"sdm.devices.types.THERMOST'' @
        (''AT","traits":{"sdm.devices.traits.Info":{"customName":"A'' @ [CHR 0xFF] @ ''B"},"sdm.devi'') @
        ''ces.traits.Connectivity":{"status":"OFFLINE"}}}'')
       [(''name'', jstr ''enterprises/p1/devices/d4''),
        (''type'', jstr ''sdm.devices.types.THERMOSTAT''),
        (''traits'', JObj ((''{"sdm.devices.traits.Info":{"customName":"A'' @ [CHR 0xFF] @ ''B"},"sdm.devices.traits.Co'') @
           ''nnectivity":{"status":"OFFLINE"}}'')
          [(''sdm.devices.traits.Info'', JObj (''{"customName":"A'' @ [CHR 0xFF] @ ''B"}'')
             [(''customName'', jstr (''A'' @ [CHR 0xFF] @ ''B''))]),
           (''sdm.devices.traits.Connectivity'', JObj ''{"status":"OFFLINE"}''
             [(''status'', jstr ''OFFLINE'')])])]\<close>


definition example_nest_env :: "json \<Rightarrow> nest_env" where
  "example_nest_env doc =
     \<lparr>ParseRequestURI = (\<lambda>u. None),
      client_Get = (\<lambda>u. Response 200 (Content (gj_String (Some doc)) doc)),
      Register = (\<lambda>c. None)\<rparr>"

definition example_exporter_config :: ExporterConfig where
  "example_exporter_config =
     \<lparr>cfg_Timeout = 5000,
      NestURL = ''https://smartdevicemanagement.googleapis.com/v1/'',
      NestOAuthClientID = ''client'',
      NestOAuthClientSecret = ''secret'',
      NestProjectID = ''p1'',
      NestRefreshToken = ''refresh'',
      NestLabelSpaceToDash = None\<rparr>"

definition example_nest_collector :: nest_Collector where
  "example_nest_collector =
     \<lparr>url = ''https://smartdevicemanagement.googleapis.com/v1/enterprises/p1/devices/'',
      metrics = nest_buildMetrics\<rparr>"

subsection \<open>App responses\<close>

definition example_structure_bucket :: json where
  \<open>example_structure_bucket =
     JObj ''{"object_key":"structure.s1","value":{"name":"Home"}}''
       [(''object_key'', jstr ''structure.s1''),
        (''value'', JObj ''{"name":"Home"}''
          [(''name'', jstr ''Home'')])]\<close>

definition example_structure_bucket_again :: json where
  \<open>example_structure_bucket_again =
     JObj ''{"object_key":"structure.s1","value":{"name":"Cabin"}}''
       [(''object_key'', jstr ''structure.s1''),
        (''value'', JObj ''{"name":"Cabin"}''
          [(''name'', jstr ''Cabin'')])]\<close>

definition example_where_bucket :: json where
  \<open>example_where_bucket =
     JObj (''{"object_key":"where.s1","value":{"wheres":[{"where_id":"w1","name":"L'' @
        ''iving Room"},{"where_id":"w2","name":"Bedroom"}]}}'')
       [(''object_key'', jstr ''where.s1''),
        (''value'', JObj (''{"wheres":[{"where_id":"w1","name":"Living Room"},{"where_id":"w2","na'' @
           ''me":"Bedroom"}]}'')
          [(''wheres'', JArr (''[{"where_id":"w1","name":"Living Room"},{"where_id":"w2","name":"Bedro'' @
              ''om"}]'')
             [JObj ''{"where_id":"w1","name":"Living Room"}''
                [(''where_id'', jstr ''w1''),
                 (''name'', jstr ''Living Room'')],
              JObj ''{"where_id":"w2","name":"Bedroom"}''
                [(''where_id'', jstr ''w2''),
                 (''name'', jstr ''Bedroom'')]])])]\<close>

definition example_sensor_bucket :: json where
  \<open>example_sensor_bucket =
     JObj (''{"object_key":"kryptonite.k1","value":{"structure_id":"s1","where_id":'' @
        ''"w1","serial_number":"22AA01AC123456AB","current_temperature":22,"batt'' @
        ''ery_level":79,"last_updated_at":1700000000}}'')
       [(''object_key'', jstr ''kryptonite.k1''),
        (''value'', JObj (''{"structure_id":"s1","where_id":"w1","serial_number":"22AA01AC123456AB'' @
           ''","current_temperature":22,"battery_level":79,"last_updated_at":170000'' @
           ''0000}'')
          [(''structure_id'', jstr ''s1''),
           (''where_id'', jstr ''w1''),
           (''serial_number'', jstr ''22AA01AC123456AB''),
           (''current_temperature'', JNum ''22'' (Fin 22) 22),
           (''battery_level'', JNum ''79'' (Fin 79) 79),
           (''last_updated_at'', JNum ''1700000000'' (Fin 1700000000) 1700000000)])]\<close>

definition example_stray_sensor_bucket :: json where
  \<open>example_stray_sensor_bucket =
     JObj (''{"object_key":"kryptonite.k2","value":{"structure_id":"s9","where_id":'' @
        ''"w1","serial_number":"22AA01AC654321BA","current_temperature":19.5,"ba'' @
        ''ttery_level":64,"last_updated_at":1700000100}}'')
       [(''object_key'', jstr ''kryptonite.k2''),
        (''value'', JObj (''{"structure_id":"s9","where_id":"w1","serial_number":"22AA01AC654321BA'' @
           ''","current_temperature":19.5,"battery_level":64,"last_updated_at":1700'' @
           ''000100}'')
          [(''structure_id'', jstr ''s9''),
           (''where_id'', jstr ''w1''),
           (''serial_number'', jstr ''22AA01AC654321BA''),
           (''current_temperature'', JNum ''19.5'' (Fin (39 / 2)) 19),
           (''battery_level'', JNum ''64'' (Fin 64) 64),
           (''last_updated_at'', JNum ''1700000100'' (Fin 1700000100) 1700000100)])]\<close>

definition example_buckets_doc :: json where
  \<open>example_buckets_doc =
     JObj (''{"updated_buckets":[{"object_key":"structure.s1","value":{"name":"Home'' @
        ''"}},{"object_key":"where.s1","value":{"wheres":[{"where_id":"w1","name'' @
        ''":"Living Room"},{"where_id":"w2","name":"Bedroom"}]}},{"object_key":"'' @
        ''kryptonite.k1","value":{"structure_id":"s1","where_id":"w1","serial_nu'' @
        ''mber":"22AA01AC123456AB","current_temperature":22,"battery_level":79,"'' @
        ''last_updated_at":1700000000}},{"object_key":"kryptonite.k2","value":{"'' @
        ''structure_id":"s9","where_id":"w1","serial_number":"22AA01AC654321BA",'' @
        ''"current_temperature":19.5,"battery_level":64,"last_updated_at":170000'' @
        ''0100}}]}'')
       [(''updated_buckets'', JArr (''[{"object_key":"structure.s1","value":{"name":"Home"}},{"object_key":"'' @
           ''where.s1","value":{"wheres":[{"where_id":"w1","name":"Living Room"},{"'' @
           ''where_id":"w2","name":"Bedroom"}]}},{"object_key":"kryptonite.k1","val'' @
           ''ue":{"structure_id":"s1","where_id":"w1","serial_number":"22AA01AC1234'' @
           ''56AB","current_temperature":22,"battery_level":79,"last_updated_at":17'' @
           ''00000000}},{"object_key":"kryptonite.k2","value":{"structure_id":"s9",'' @
           ''"where_id":"w1","serial_number":"22AA01AC654321BA","current_temperatur'' @
           ''e":19.5,"battery_level":64,"last_updated_at":1700000100}}]'')
          [example_structure_bucket,
           example_where_bucket,
           example_sensor_bucket,
           example_stray_sensor_bucket])]\<close>

definition example_buckets_doc_reordered :: json where
  \<open>example_buckets_doc_reordered =
     JObj (''{"updated_buckets":[{"object_key":"kryptonite.k2","value":{"structure_'' @
        ''id":"s9","where_id":"w1","serial_number":"22AA01AC654321BA","current_t'' @
        ''emperature":19.5,"battery_level":64,"last_updated_at":1700000100}},{"o'' @
        ''bject_key":"kryptonite.k1","value":{"structure_id":"s1","where_id":"w1'' @
        ''","serial_number":"22AA01AC123456AB","current_temperature":22,"battery'' @
        ''_level":79,"last_updated_at":1700000000}},{"object_key":"where.s1","va'' @
        ''lue":{"wheres":[{"where_id":"w1","name":"Living Room"},{"where_id":"w2'' @
        ''","name":"Bedroom"}]}},{"object_key":"structure.s1","value":{"name":"H'' @
        ''ome"}}]}'')
       [(''updated_buckets'', JArr (''[{"object_key":"kryptonite.k2","value":{"structure_id":"s9","where_id"'' @
           '':"w1","serial_number":"22AA01AC654321BA","current_temperature":19.5,"b'' @
           ''attery_level":64,"last_updated_at":1700000100}},{"object_key":"krypton'' @
           ''ite.k1","value":{"structure_id":"s1","where_id":"w1","serial_number":"'' @
           ''22AA01AC123456AB","current_temperature":22,"battery_level":79,"last_up'' @
           ''dated_at":1700000000}},{"object_key":"where.s1","value":{"wheres":[{"w'' @
           ''here_id":"w1","name":"Living Room"},{"where_id":"w2","name":"Bedroom"}'' @
           '']}},{"object_key":"structure.s1","value":{"name":"Home"}}]'')
          [example_stray_sensor_bucket,
           example_sensor_bucket,
           example_where_bucket,
           example_structure_bucket])]\<close>

definition example_duplicate_doc :: json where
  \<open>example_duplicate_doc =
     JObj (''{"updated_buckets":[{"object_key":"structure.s1","value":{"name":"Home'' @
        ''"}},{"object_key":"structure.s1","value":{"name":"Cabin"}},{"object_ke'' @
        ''y":"kryptonite.k1","value":{"structure_id":"s1","where_id":"w1","seria'' @
        ''l_number":"22AA01AC123456AB","current_temperature":22,"battery_level":'' @
        ''79,"last_updated_at":1700000000}}]}'')
       [(''updated_buckets'', JArr (''[{"object_key":"structure.s1","value":{"name":"Home"}},{"object_key":"'' @
           ''structure.s1","value":{"name":"Cabin"}},{"object_key":"kryptonite.k1",'' @
           ''"value":{"structure_id":"s1","where_id":"w1","serial_number":"22AA01AC'' @
           ''123456AB","current_temperature":22,"battery_level":79,"last_updated_at'' @
           ''":1700000000}}]'')
          [example_structure_bucket,
           example_structure_bucket_again,
           example_sensor_bucket])]\<close>

definition example_duplicate_doc_reordered :: json where
  \<open>example_duplicate_doc_reordered =
     JObj (''{"updated_buckets":[{"object_key":"structure.s1","value":{"name":"Cabi'' @
        ''n"}},{"object_key":"structure.s1","value":{"name":"Home"}},{"object_ke'' @
        ''y":"kryptonite.k1","value":{"structure_id":"s1","where_id":"w1","seria'' @
        ''l_number":"22AA01AC123456AB","current_temperature":22,"battery_level":'' @
        ''79,"last_updated_at":1700000000}}]}'')
       [(''updated_buckets'', JArr (''[{"object_key":"structure.s1","value":{"name":"Cabin"}},{"object_key":'' @
           ''"structure.s1","value":{"name":"Home"}},{"object_key":"kryptonite.k1",'' @
           ''"value":{"structure_id":"s1","where_id":"w1","serial_number":"22AA01AC'' @
           ''123456AB","current_temperature":22,"battery_level":79,"last_updated_at'' @
           ''":1700000000}}]'')
          [example_structure_bucket_again,
           example_structure_bucket,
           example_sensor_bucket])]\<close>

definition example_google_token_doc :: json where
  \<open>example_google_token_doc =
     JObj ''{"access_token":"ya29.a0","token_type":"Bearer"}''
       [(''access_token'', jstr ''ya29.a0''),
        (''token_type'', jstr ''Bearer'')]\<close>

definition example_jwt_doc :: json where
  \<open>example_jwt_doc =
     JObj (''{"jwt":"g.0.jwt1","claims":{"subject":{"nestId":{"id":"user.1"}},"expi'' @
        ''rationTime":"2026-11-01T12:00:00Z"}}'')
       [(''jwt'', jstr ''g.0.jwt1''),
        (''claims'', JObj (''{"subject":{"nestId":{"id":"user.1"}},"expirationTime":"2026-11-01T12:'' @
           ''00:00Z"}'')
          [(''subject'', JObj ''{"nestId":{"id":"user.1"}}''
             [(''nestId'', JObj ''{"id":"user.1"}''
                [(''id'', jstr ''user.1'')])]),
           (''expirationTime'', jstr ''2026-11-01T12:00:00Z'')])]\<close>


definition example_session :: "Time \<Rightarrow> app_Collector" where
  "example_session expiry =
     \<lparr>config = \<lparr>app_Timeout = 5000,
                 AuthURL = ''https://accounts.google.com/o/oauth2/iframerpc?action=issueToken'',
                 AuthCookies = ''NID=1''\<rparr>,
      accessToken = ''g.0.jwt0'',
      accessTokenValidUntil = expiry,
      userId = ''user.1''\<rparr>"

text \<open>
  A world with the given clock readings in which the data request is answered with
  \<open>example_buckets_doc\<close>, and the authentication endpoint either answers or times out.
\<close>

definition example_app_env :: "Time \<Rightarrow> Time \<Rightarrow> bool \<Rightarrow> app_env" where
  "example_app_env now1 now2 auth_up =
     \<lparr>Now1 = now1,
      Now2 = now2,
      NewRequest = (\<lambda>m u. None),
      client_Do = (\<lambda>req.
        if Method req = ''GET''
        then (if auth_up
              then Response 200 (Content (gj_String (Some example_google_token_doc))
                     example_google_token_doc)
              else TransportError ''context deadline exceeded'')
        else if URL req = ''https://nestauthproxyservice-pa.googleapis.com/v1/issue_jwt''
        then Response 200 (Content (gj_String (Some example_jwt_doc)) example_jwt_doc)
        else Response 200 (Content (gj_String (Some example_buckets_doc)) example_buckets_doc)),
      Parse_RFC3339 = (\<lambda>s. if s = ''2026-11-01T12:00:00Z''
                            then Inr 1793534400000000000 else Inl ''cannot parse'')\<rparr>"

section \<open>Properties of the thermostat collector\<close>

lemma values_of_array: "map snd (gj_ForEach (Some (JArr raw xs))) = xs"
  by (simp add: map_snd_zip)

lemma devices_loop_filter:
  "devices_loop ds ts = ts @ map thermostat_of (filter is_thermostat_type ds)"
  by (induction ds arbitrary: ts) auto

lemma fqName_buildMetrics:
  "fqName (up nest_buildMetrics) = ''nest_up''"
  "fqName (online nest_buildMetrics) = ''nest_online''"
  "fqName (ambientTemp nest_buildMetrics) = ''nest_ambient_temperature_celsius''"
  "fqName (setpointTemp nest_buildMetrics) = ''nest_setpoint_temperature_celsius''"
  "fqName (humidity nest_buildMetrics) = ''nest_humidity_percent''"
  "fqName (heating nest_buildMetrics) = ''nest_heating''"
  by (simp_all add: nest_buildMetrics_def NewDesc_def Let_def)

lemma getNestReadings_ok:
  assumes "client_Get env (url c) = Response 200 (Content bodyString doc)"
  shows "getNestReadings env c =
     (let thermostats = map thermostat_of
            (filter is_thermostat_type (map snd (gj_ForEach (gj_Get ''devices'' (Some doc)))))
      in if thermostats = []
         then Inl (Wrap errFailedUnmarshalling ''no valid thermostats in devices list'')
         else Inr thermostats)"
  using assms by (simp add: getNestReadings_def devices_loop_filter Let_def)

subsection \<open>The example devices\<close>

lemma example_devices_types:
  "is_thermostat_type example_cooling_thermostat"
  "\<not> is_thermostat_type example_camera"
  "is_thermostat_type example_offline_thermostat"
  by (simp_all add: is_thermostat_type_def example_cooling_thermostat_def example_camera_def
      example_offline_thermostat_def jstr_def)

lemma example_devices_of_doc:
  "map snd (gj_ForEach (gj_Get ''devices'' (Some example_devices_doc))) =
     [example_cooling_thermostat, example_camera, example_offline_thermostat]"
  "map snd (gj_ForEach (gj_Get ''devices'' (Some example_camera_doc))) = [example_camera]"
  by (simp_all add: example_devices_doc_def example_camera_doc_def values_of_array)

lemma example_nest_env_Get:
  "client_Get (example_nest_env doc) u = Response 200 (Content (gj_String (Some doc)) doc)"
  by (simp add: example_nest_env_def)

lemma example_getNestReadings:
  "getNestReadings (example_nest_env example_devices_doc) example_nest_collector =
     Inr [thermostat_of example_cooling_thermostat, thermostat_of example_offline_thermostat]"
  "getNestReadings (example_nest_env example_camera_doc) example_nest_collector =
     Inl (Wrap errFailedUnmarshalling ''no valid thermostats in devices list'')"
  by (simp_all add: getNestReadings_ok[OF example_nest_env_Get] example_devices_of_doc
      example_devices_types)

lemma example_cooling_fields:
  "ID (thermostat_of example_cooling_thermostat) = ''enterprises/p1/devices/d1''"
  "Room (thermostat_of example_cooling_thermostat) = ''Lounge''"
  "Label (thermostat_of example_cooling_thermostat) = ''Living Room''"
  "Online (thermostat_of example_cooling_thermostat)"
  "AmbientTemp (thermostat_of example_cooling_thermostat) = Fin (47 / 2)"
  "SetpointTemp (thermostat_of example_cooling_thermostat) = NaN"
  "Humidity (thermostat_of example_cooling_thermostat) = Fin 55"
  "Status (thermostat_of example_cooling_thermostat) = ''COOLING''"
  by (simp_all add: thermostat_of_def heatSetPoint_def gj_GetPath_def
      example_cooling_thermostat_def jstr_def)

lemma example_offline_fields:
  "ID (thermostat_of example_offline_thermostat) = ''enterprises/p1/devices/d3''"
  "Room (thermostat_of example_offline_thermostat) = []"
  "Label (thermostat_of example_offline_thermostat) = ''Attic''"
  "\<not> Online (thermostat_of example_offline_thermostat)"
  "SetpointTemp (thermostat_of example_offline_thermostat) = Fin 18"
  by (simp_all add: thermostat_of_def heatSetPoint_def gj_GetPath_def
      example_offline_thermostat_def jstr_def)


lemma example_bad_label_fields:
  "ID (thermostat_of example_bad_label_thermostat) = ''enterprises/p1/devices/d4''"
  "Room (thermostat_of example_bad_label_thermostat) = []"
  "Label (thermostat_of example_bad_label_thermostat) = ''A'' @ [CHR 0xFF] @ ''B''"
  "\<not> Online (thermostat_of example_bad_label_thermostat)"
  by (simp_all add: thermostat_of_def heatSetPoint_def gj_GetPath_def
      example_bad_label_thermostat_def jstr_def)

subsection \<open>Devices that are not thermostats\<close>

text \<open>
  C7. When the request succeeds and no element of \<open>devices\<close> is of the thermostat type,
  \<open>getNestReadings\<close> fails with the error for no valid devices. When some element is of
  that type, it returns the thermostats of exactly the elements of that type, in their
  order: any other element is passed over and raises no error.
\<close>

theorem getNestReadings_thermostats_only:
  assumes "client_Get env (url c) = Response 200 (Content bodyString doc)"
  shows "((\<forall>d \<in> set (map snd (gj_ForEach (gj_Get ''devices'' (Some doc)))). \<not> is_thermostat_type d) \<longrightarrow>
           getNestReadings env c =
             Inl (Wrap errFailedUnmarshalling ''no valid thermostats in devices list'')) \<and>
         ((\<exists>d \<in> set (map snd (gj_ForEach (gj_Get ''devices'' (Some doc)))). is_thermostat_type d) \<longrightarrow>
           getNestReadings env c =
             Inr (map thermostat_of
                   (filter is_thermostat_type (map snd (gj_ForEach (gj_Get ''devices'' (Some doc)))))))"
  by (auto simp: getNestReadings_ok[OF assms] Let_def filter_empty_conv)

theorem getNestReadings_thermostats_only_witness:
  "client_Get (example_nest_env example_camera_doc) (url example_nest_collector) =
     Response 200 (Content (gj_String (Some example_camera_doc)) example_camera_doc) \<and>
   map snd (gj_ForEach (gj_Get ''devices'' (Some example_camera_doc))) = [example_camera] \<and>
   \<not> is_thermostat_type example_camera \<and>
   getNestReadings (example_nest_env example_camera_doc) example_nest_collector =
     Inl (Wrap errFailedUnmarshalling ''no valid thermostats in devices list'') \<and>
   (\<exists>d \<in> set (map snd (gj_ForEach (gj_Get ''devices'' (Some example_devices_doc)))).
      is_thermostat_type d) \<and>
   getNestReadings (example_nest_env example_devices_doc) example_nest_collector =
     Inr (map thermostat_of [example_cooling_thermostat, example_offline_thermostat])"
  using getNestReadings_thermostats_only[where env = "example_nest_env example_camera_doc"
      and c = example_nest_collector and doc = example_camera_doc, OF example_nest_env_Get]
    getNestReadings_thermostats_only[where env = "example_nest_env example_devices_doc"
      and c = example_nest_collector and doc = example_devices_doc, OF example_nest_env_Get]
  by (simp add: example_nest_env_Get example_devices_of_doc example_devices_types)

subsection \<open>Sending metrics\<close>

lemma MustNewConstMetric_Return:
  assumes "length ls = length (variableLabels d)" and "list_all ValidString ls"
  shows "MustNewConstMetric d t v ls = Return \<lparr>desc = d, valueType = t, val = v, labelValues = ls\<rparr>"
  using assms by (simp add: MustNewConstMetric_def)


lemma MustNewConstMetric_desc:
  "MustNewConstMetric d t v ls = Return m \<Longrightarrow> desc m = d"
  by (auto simp: MustNewConstMetric_def split: if_splits)

lemma variableLabels_buildMetrics:
  "variableLabels (up nest_buildMetrics) = []"
  "length (variableLabels (online nest_buildMetrics)) = 3"
  "length (variableLabels (ambientTemp nest_buildMetrics)) = 3"
  "length (variableLabels (setpointTemp nest_buildMetrics)) = 3"
  "length (variableLabels (humidity nest_buildMetrics)) = 3"
  "length (variableLabels (heating nest_buildMetrics)) = 3"
  by (simp_all add: nest_buildMetrics_def NewDesc_def Let_def)


lemma send_Return: "send (Return m) = \<lparr>sent = [m], ended = Return ()\<rparr>"
  by (simp add: send_def)


lemma sent_send: "m \<in> set (sent (send x)) \<Longrightarrow> x = Return m"
  by (cases x) (simp_all add: send_def)

lemma then_emit_Return:
  "ended a = Return u \<Longrightarrow> then_emit a b = \<lparr>sent = sent a @ sent b, ended = ended b\<rparr>"
  by (simp add: then_emit_def)

lemma then_emit_Panic: "ended a = Panic \<Longrightarrow> then_emit a b = a"
  by (simp add: then_emit_def)

lemma then_emit_returned: "then_emit a returned = a"
  by (cases "ended a") (simp_all add: then_emit_def returned_def)

lemma sent_then_emit:
  "x \<in> set (sent (then_emit a b)) \<Longrightarrow> x \<in> set (sent a) \<or> x \<in> set (sent b)"
  by (cases "ended a") (simp_all add: then_emit_def)


lemma collect_thermostat_offline:
  assumes "\<not> Online therm"
  shows "collect_thermostat m therm =
           send (MustNewConstMetric (online m) GaugeValue (Fin 0) (labels_of therm))"
  using assms by (simp add: collect_thermostat_def then_emit_returned Let_def)



lemma collect_thermostat_no_setpoint:
  assumes "IsNaN (SetpointTemp therm)"
    and "x \<in> set (sent (collect_thermostat m therm))"
  shows "desc x \<in> {online m, ambientTemp m, humidity m, heating m}"
proof (cases "Online therm")
  case False
  then show ?thesis
    using assms(2) by (auto simp: collect_thermostat_offline dest!: sent_send MustNewConstMetric_desc)
next
  case True
  let ?l = "labels_of therm"
  let ?rest = "then_emit (send (MustNewConstMetric (ambientTemp m) GaugeValue (AmbientTemp therm) ?l))
      (then_emit returned
        (then_emit (send (MustNewConstMetric (humidity m) GaugeValue (Humidity therm) ?l))
          (send (MustNewConstMetric (heating m) GaugeValue (b2f (Status therm = ''HEATING'')) ?l))))"
  have "collect_thermostat m therm =
      then_emit (send (MustNewConstMetric (online m) GaugeValue (b2f (Online therm)) ?l)) ?rest"
    using True assms(1) by (simp add: collect_thermostat_def Let_def)
  then have "x \<in> set (sent (send (MustNewConstMetric (online m) GaugeValue (b2f (Online therm)) ?l))) \<or>
      x \<in> set (sent (send (MustNewConstMetric (ambientTemp m) GaugeValue (AmbientTemp therm) ?l))) \<or>
      x \<in> set (sent returned) \<or>
      x \<in> set (sent (send (MustNewConstMetric (humidity m) GaugeValue (Humidity therm) ?l))) \<or>
      x \<in> set (sent (send (MustNewConstMetric (heating m) GaugeValue
                              (b2f (Status therm = ''HEATING'')) ?l)))"
    using assms(2) by (auto dest!: sent_then_emit)
  then show ?thesis
    by (auto simp: returned_def dest!: sent_send MustNewConstMetric_desc)
qed

subsection \<open>The example rounds\<close>

lemma example_labels:
  "labels_of (thermostat_of example_cooling_thermostat) =
     [''enterprises/p1/devices/d1'', ''Lounge'', ''Living-Room'']"
  "labels_of (thermostat_of example_offline_thermostat) =
     [''enterprises/p1/devices/d3'', [], ''Attic'']"
  "labels_of (thermostat_of example_bad_label_thermostat) =
     [''enterprises/p1/devices/d4'', [], ''A'' @ [CHR 0xFF] @ ''B'']"
  by (simp_all add: labels_of_def example_cooling_fields example_offline_fields
      example_bad_label_fields ReplaceAll_def)

lemma example_labels_valid:
  "list_all ValidString [''enterprises/p1/devices/d1'', ''Lounge'', ''Living-Room'']"
  "list_all ValidString [''enterprises/p1/devices/d3'', [], ''Attic'']"
  "\<not> list_all ValidString [''enterprises/p1/devices/d4'', [], ''A'' @ [CHR 0xFF] @ ''B'']"
  by (simp_all add: ValidString_def)

lemma example_cooling_round:
  "collect_thermostat nest_buildMetrics (thermostat_of example_cooling_thermostat) =
     \<lparr>sent = map (\<lambda>(d, v). \<lparr>desc = d, valueType = GaugeValue, val = v,
                     labelValues = [''enterprises/p1/devices/d1'', ''Lounge'', ''Living-Room'']\<rparr>)
               [(online nest_buildMetrics, Fin 1), (ambientTemp nest_buildMetrics, Fin (47 / 2)),
                (humidity nest_buildMetrics, Fin 55), (heating nest_buildMetrics, Fin 0)],
      ended = Return ()\<rparr>"
  by (simp add: collect_thermostat_def Let_def example_labels example_cooling_fields IsNaN_def
      returned_def send_Return then_emit_def
      MustNewConstMetric_Return[OF _ example_labels_valid(1)] variableLabels_buildMetrics)


subsection \<open>Offline thermostats\<close>




subsection \<open>A heating setpoint that is absent\<close>

text \<open>
  C6. When the request succeeds and a device of the thermostat type has no heating setpoint
  trait, \<open>getNestReadings\<close> succeeds and returns that thermostat with the setpoint
  not-a-number, which is not zero, and the round of \<open>Collect\<close> for it sends no setpoint
  metric.
\<close>

theorem absent_heat_setpoint_no_value:
  assumes "client_Get env (url c) = Response 200 (Content bodyString doc)"
    and "device \<in> set (map snd (gj_ForEach (gj_Get ''devices'' (Some doc))))"
    and "is_thermostat_type device"
    and "gj_GetPath [''traits'', ''sdm.devices.traits.ThermostatTemperatureSetpoint'', ''heatCelsius'']
           (Some device) = None"
    and "metrics c = nest_buildMetrics"
  shows "(\<exists>thermostats. getNestReadings env c = Inr thermostats \<and>
            thermostat_of device \<in> set thermostats) \<and>
         SetpointTemp (thermostat_of device) = NaN \<and>
         SetpointTemp (thermostat_of device) \<noteq> Fin 0 \<and>
         (\<forall>m \<in> set (sent (collect_thermostat (metrics c) (thermostat_of device))).
            fqName (desc m) \<noteq> ''nest_setpoint_temperature_celsius'')"
proof -
  let ?ds = "map snd (gj_ForEach (gj_Get ''devices'' (Some doc)))"
  have "map thermostat_of (filter is_thermostat_type ?ds) \<noteq> []"
    using assms(2,3) by (auto simp: filter_empty_conv)
  then have "getNestReadings env c = Inr (map thermostat_of (filter is_thermostat_type ?ds))"
    by (simp add: getNestReadings_ok[OF assms(1)] Let_def)
  moreover have "thermostat_of device \<in> set (map thermostat_of (filter is_thermostat_type ?ds))"
    using assms(2,3) by auto
  ultimately have 1: "\<exists>thermostats. getNestReadings env c = Inr thermostats \<and>
            thermostat_of device \<in> set thermostats" by blast
  have 2: "SetpointTemp (thermostat_of device) = NaN"
    using assms(4) by (simp add: thermostat_of_def heatSetPoint_def)
  have 3: "\<forall>m \<in> set (sent (collect_thermostat (metrics c) (thermostat_of device))).
            fqName (desc m) \<noteq> ''nest_setpoint_temperature_celsius''"
  proof
    fix m assume "m \<in> set (sent (collect_thermostat (metrics c) (thermostat_of device)))"
    then have "desc m \<in> {online (metrics c), ambientTemp (metrics c), humidity (metrics c),
        heating (metrics c)}"
      using 2 by (intro collect_thermostat_no_setpoint) (simp_all add: IsNaN_def)
    then show "fqName (desc m) \<noteq> ''nest_setpoint_temperature_celsius''"
      by (auto simp: assms(5) fqName_buildMetrics)
  qed
  show ?thesis using 1 2 3 by simp
qed

theorem absent_heat_setpoint_no_value_witness:
  "client_Get (example_nest_env example_devices_doc) (url example_nest_collector) =
     Response 200 (Content (gj_String (Some example_devices_doc)) example_devices_doc) \<and>
   example_cooling_thermostat \<in>
     set (map snd (gj_ForEach (gj_Get ''devices'' (Some example_devices_doc)))) \<and>
   is_thermostat_type example_cooling_thermostat \<and>
   gj_GetPath [''traits'', ''sdm.devices.traits.ThermostatTemperatureSetpoint'', ''heatCelsius'']
     (Some example_cooling_thermostat) = None \<and>
   metrics example_nest_collector = nest_buildMetrics \<and>
   getNestReadings (example_nest_env example_devices_doc) example_nest_collector =
     Inr [thermostat_of example_cooling_thermostat, thermostat_of example_offline_thermostat] \<and>
   SetpointTemp (thermostat_of example_cooling_thermostat) = NaN \<and>
   map (\<lambda>m. fqName (desc m))
     (sent (collect_thermostat (metrics example_nest_collector)
              (thermostat_of example_cooling_thermostat))) =
     [''nest_online'', ''nest_ambient_temperature_celsius'', ''nest_humidity_percent'', ''nest_heating'']"
proof -
  have d: "example_cooling_thermostat \<in>
      set (map snd (gj_ForEach (gj_Get ''devices'' (Some example_devices_doc))))"
    by (simp add: example_devices_of_doc)
  have p: "gj_GetPath [''traits'', ''sdm.devices.traits.ThermostatTemperatureSetpoint'', ''heatCelsius'']
      (Some example_cooling_thermostat) = None"
    by (simp add: gj_GetPath_def example_cooling_thermostat_def jstr_def)
  have m: "metrics example_nest_collector = nest_buildMetrics"
    by (simp add: example_nest_collector_def)
  have n: "map (\<lambda>m. fqName (desc m))
     (sent (collect_thermostat (metrics example_nest_collector)
              (thermostat_of example_cooling_thermostat))) =
     [''nest_online'', ''nest_ambient_temperature_celsius'', ''nest_humidity_percent'', ''nest_heating'']"
    by (simp add: m example_cooling_round fqName_buildMetrics)
  have s: "SetpointTemp (thermostat_of example_cooling_thermostat) = NaN"
    using absent_heat_setpoint_no_value[OF example_nest_env_Get d example_devices_types(1) p m]
    by blast
  show ?thesis
    by (intro conjI)
      (rule example_nest_env_Get d example_devices_types(1) p m n s example_getNestReadings(1))+
qed

subsection \<open>What the code does with the label policy and with a cooling thermostat\<close>

text \<open>
  C4. The composition root takes the label policy as off when it is not given, but the
  collector that \<open>New\<close> builds holds no policy, and \<open>Collect\<close> replaces the spaces of the
  label in every case: with the policy off, the label \<open>Living Room\<close> is sent as
  \<open>Living-Room\<close>.
\<close>

theorem label_spaces_replaced_with_policy_off:
  "NestLabelSpaceToDash example_exporter_config = None \<and>
   ReplaceSpacesWithDashesInLabel (nestConfig_of example_exporter_config) = False \<and>
   registerNestCollector (example_nest_env example_devices_doc) example_exporter_config =
     (None, Some example_nest_collector) \<and>
   Label (thermostat_of example_cooling_thermostat) = ''Living Room'' \<and>
   map labelValues
     (sent (collect_thermostat (metrics example_nest_collector)
              (thermostat_of example_cooling_thermostat))) =
     replicate 4 [''enterprises/p1/devices/d1'', ''Lounge'', ''Living-Room'']"
proof -
  have 1: "NestLabelSpaceToDash example_exporter_config = None"
    by (simp add: example_exporter_config_def)
  have 2: "ReplaceSpacesWithDashesInLabel (nestConfig_of example_exporter_config) = False"
    by (simp add: nestConfig_of_def example_exporter_config_def)
  have 3: "registerNestCollector (example_nest_env example_devices_doc) example_exporter_config =
     (None, Some example_nest_collector)"
    by (simp add: registerNestCollector_def nest_New_def nestConfig_of_def example_exporter_config_def
        example_nest_env_def example_nest_collector_def TrimRight_def)
  have 5: "map labelValues
     (sent (collect_thermostat (metrics example_nest_collector)
              (thermostat_of example_cooling_thermostat))) =
     replicate 4 [''enterprises/p1/devices/d1'', ''Lounge'', ''Living-Room'']"
    by (simp add: example_nest_collector_def example_cooling_round numeral_eq_Suc)
  show ?thesis using 1 2 3 5 by (simp add: example_cooling_fields)
qed

text \<open>
  C8. For an online thermostat whose status is \<open>COOLING\<close>, \<open>Collect\<close> sends the heating
  gauge with value 0 and no gauge for cooling: the collector has a descriptor for
  heating only.
\<close>

theorem cooling_thermostat_has_no_cooling_metric:
  "Online (thermostat_of example_cooling_thermostat) \<and>
   Status (thermostat_of example_cooling_thermostat) = ''COOLING'' \<and>
   map (\<lambda>m. (fqName (desc m), val m))
     (sent (collect_thermostat (metrics example_nest_collector)
              (thermostat_of example_cooling_thermostat))) =
     [(''nest_online'', Fin 1), (''nest_ambient_temperature_celsius'', Fin (47 / 2)),
      (''nest_humidity_percent'', Fin 55), (''nest_heating'', Fin 0)]"
  by (simp add: example_nest_collector_def example_cooling_fields example_cooling_round
      fqName_buildMetrics)
section \<open>Properties of the sensor collector\<close>

subsection \<open>Requests made by the authentication and by the data request\<close>

lemma getGoogleAccessToken_reqs:
  "snd (getGoogleAccessToken env c) =
     (if NewRequest env ''GET'' (AuthURL (config c)) = None then [googleTokenRequest c] else [])"
  by (simp add: getGoogleAccessToken_def Let_def
      split: option.splits http_result.splits body.splits)

lemma getNestJwt_reqs:
  "set (snd (getNestJwt env c tok)) \<subseteq> {jwtRequest tok}"
  by (simp add: getNestJwt_def Let_def
      split: option.splits http_result.splits body.splits sum.splits)

lemma reauth_reqs:
  "\<exists>rest. snd (snd (reauth env c)) = snd (getGoogleAccessToken env c) @ rest \<and>
          (\<forall>r \<in> set rest. \<exists>tok. r = jwtRequest tok)"
proof (cases "getGoogleAccessToken env c")
  case (Pair res log1)
  show ?thesis
  proof (cases res)
    case (Inl err)
    with Pair show ?thesis by (simp add: reauth_def)
  next
    case (Inr tok)
    obtain res2 log2 where j: "getNestJwt env c tok = (res2, log2)" by (cases "getNestJwt env c tok")
    have "\<forall>r \<in> set log2. r = jwtRequest tok" using getNestJwt_reqs[of env c tok] j by auto
    then have "\<forall>r \<in> set log2. \<exists>tok. r = jwtRequest tok" by blast
    moreover have "snd (snd (reauth env c)) = log1 @ log2"
      using Pair Inr j by (cases res2) (auto simp: reauth_def)
    ultimately show ?thesis using Pair by auto
  qed
qed

lemma appLaunchRequest_not_auth:
  "appLaunchRequest c' \<noteq> googleTokenRequest c"
  "appLaunchRequest c' \<noteq> jwtRequest tok"
  by (simp_all add: appLaunchRequest_def googleTokenRequest_def jwtRequest_def appLaunchURL_def)

lemma googleTokenRequest_not_jwt: "googleTokenRequest c \<noteq> jwtRequest tok"
  by (simp add: googleTokenRequest_def jwtRequest_def)

lemma reauth_no_data_request: "appLaunchRequest c' \<notin> set (snd (snd (reauth env c)))"
proof -
  obtain rest where r: "snd (snd (reauth env c)) = snd (getGoogleAccessToken env c) @ rest"
    and j: "\<forall>r \<in> set rest. \<exists>tok. r = jwtRequest tok"
    using reauth_reqs by blast
  have "appLaunchRequest c' \<notin> set (snd (getGoogleAccessToken env c))"
    by (simp add: getGoogleAccessToken_reqs appLaunchRequest_not_auth)
  moreover have "appLaunchRequest c' \<notin> set rest"
    using j appLaunchRequest_not_auth(2) by blast
  ultimately show ?thesis by (simp add: r)
qed

lemma requestReadings_reqs:
  "set (snd (requestReadings env c)) \<subseteq> {appLaunchRequest c}"
  by (simp add: requestReadings_def Let_def split: option.splits http_result.splits body.splits)

lemma requestReadings_ok:
  assumes "NewRequest env ''POST'' (appLaunchURL c) = None"
    and "client_Do env (appLaunchRequest c) = Response 200 (Content bodyString doc)"
  shows "requestReadings env c = (Return (Inr (parseReadings doc)), [appLaunchRequest c])"
  using assms by (simp add: requestReadings_def)

lemma reauth_failure_unchanged:
  "fst (reauth env c) \<noteq> None \<Longrightarrow> fst (snd (reauth env c)) = c"
  by (simp add: reauth_def split: prod.splits sum.splits)

lemma getReadings_in_margin:
  assumes "accessTokenValidUntil c - 2 * Minute \<le> Now1 env"
  shows "getReadings env c =
     (case reauth env c of
        (Some err, c', reqs) \<Rightarrow>
          if accessTokenValidUntil c' \<le> Now2 env
          then (Return (Inl (Errorf_w ''Failed to re-authenticate to Nest API'' err)), c', reqs)
          else (fst (requestReadings env c'), c', reqs @ snd (requestReadings env c'))
      | (None, c', reqs) \<Rightarrow> (fst (requestReadings env c'), c', reqs @ snd (requestReadings env c')))"
  using assms
  by (simp add: getReadings_def Before_def Add_def not_less split: prod.splits option.splits)

lemma getReadings_outside_margin:
  assumes "Now1 env < accessTokenValidUntil c - 2 * Minute"
  shows "getReadings env c = (fst (requestReadings env c), c, snd (requestReadings env c))"
  using assms by (simp add: getReadings_def Before_def Add_def split: prod.splits)

lemma getReadings_reqs_in_margin:
  assumes "accessTokenValidUntil c - 2 * Minute \<le> Now1 env"
  shows "\<exists>rest. snd (snd (getReadings env c)) = snd (snd (reauth env c)) @ rest \<and>
           set rest \<subseteq> {appLaunchRequest (fst (snd (reauth env c)))} \<and>
           fst (snd (getReadings env c)) = fst (snd (reauth env c))"
proof (cases "reauth env c")
  case (fields e c' reqs)
  have s: "set (snd (requestReadings env c')) \<subseteq> {appLaunchRequest c'}"
    by (rule requestReadings_reqs)
  show ?thesis
  proof (cases "e \<noteq> None \<and> accessTokenValidUntil c' \<le> Now2 env")
    case True
    then show ?thesis
      using fields by (auto simp: getReadings_in_margin[OF assms])
  next
    case False
    then have "getReadings env c = (fst (requestReadings env c'), c', reqs @ snd (requestReadings env c'))"
      using fields by (cases e) (auto simp: getReadings_in_margin[OF assms])
    then show ?thesis using fields s by simp
  qed
qed

subsection \<open>The session is replaced as a whole\<close>

text \<open>
  C9. If re-authentication fails at its first step (the Google access token) or at its
  second (the Nest token), it returns an error and the collector is as before: token, user
  identifier and expiry are untouched. Otherwise it returns no error and all three fields
  are set from the one answer of the second step. \<open>getReadings\<close> leaves the collector as
  it was or as \<open>reauth\<close> left it.
\<close>

theorem session_replaced_only_as_a_whole:
  "(((\<exists>err reqs. getGoogleAccessToken env c = (Inl err, reqs)) \<or>
     (\<exists>tok reqs1 err reqs2. getGoogleAccessToken env c = (Inr tok, reqs1) \<and>
        getNestJwt env c tok = (Inl err, reqs2))) \<longrightarrow>
      fst (reauth env c) \<noteq> None \<and> fst (snd (reauth env c)) = c) \<and>
   (\<not> ((\<exists>err reqs. getGoogleAccessToken env c = (Inl err, reqs)) \<or>
       (\<exists>tok reqs1 err reqs2. getGoogleAccessToken env c = (Inr tok, reqs1) \<and>
          getNestJwt env c tok = (Inl err, reqs2))) \<longrightarrow>
      fst (reauth env c) = None \<and>
      (\<exists>tok reqs1 jwt uid expiry reqs2.
         getGoogleAccessToken env c = (Inr tok, reqs1) \<and>
         getNestJwt env c tok = (Inr (jwt, uid, expiry), reqs2) \<and>
         fst (snd (reauth env c)) =
           c\<lparr>accessToken := jwt, userId := uid, accessTokenValidUntil := expiry\<rparr>)) \<and>
   (fst (snd (getReadings env c)) = c \<or>
    fst (snd (getReadings env c)) = fst (snd (reauth env c)))"
proof (intro conjI impI)
  assume "(\<exists>err reqs. getGoogleAccessToken env c = (Inl err, reqs)) \<or>
     (\<exists>tok reqs1 err reqs2. getGoogleAccessToken env c = (Inr tok, reqs1) \<and>
        getNestJwt env c tok = (Inl err, reqs2))"
  then show "fst (reauth env c) \<noteq> None" "fst (snd (reauth env c)) = c"
    by (auto simp: reauth_def)
next
  assume n: "\<not> ((\<exists>err reqs. getGoogleAccessToken env c = (Inl err, reqs)) \<or>
       (\<exists>tok reqs1 err reqs2. getGoogleAccessToken env c = (Inr tok, reqs1) \<and>
          getNestJwt env c tok = (Inl err, reqs2)))"
  obtain res1 reqs1 where g: "getGoogleAccessToken env c = (res1, reqs1)"
    by (cases "getGoogleAccessToken env c")
  with n obtain tok where tok: "res1 = Inr tok" by (cases res1) auto
  obtain res2 reqs2 where j: "getNestJwt env c tok = (res2, reqs2)"
    by (cases "getNestJwt env c tok")
  with n g tok obtain jwt uid expiry where r: "res2 = Inr (jwt, uid, expiry)"
    by (cases res2) auto
  show "fst (reauth env c) = None"
    using g tok j r by (simp add: reauth_def)
  have "fst (snd (reauth env c)) =
      c\<lparr>accessToken := jwt, userId := uid, accessTokenValidUntil := expiry\<rparr>"
    using g tok j r by (simp add: reauth_def)
  then show "\<exists>tok reqs1 jwt uid expiry reqs2.
         getGoogleAccessToken env c = (Inr tok, reqs1) \<and>
         getNestJwt env c tok = (Inr (jwt, uid, expiry), reqs2) \<and>
         fst (snd (reauth env c)) =
           c\<lparr>accessToken := jwt, userId := uid, accessTokenValidUntil := expiry\<rparr>"
    using g tok j r by blast
next
  show "fst (snd (getReadings env c)) = c \<or>
    fst (snd (getReadings env c)) = fst (snd (reauth env c))"
  proof (cases "accessTokenValidUntil c - 2 * Minute \<le> Now1 env")
    case True
    then show ?thesis using getReadings_reqs_in_margin by blast
  next
    case False
    then show ?thesis by (simp add: getReadings_outside_margin)
  qed
qed

subsection \<open>When re-authentication is attempted\<close>

text \<open>
  C2. \<open>getReadings\<close> re-authenticates exactly when the first clock reading is at or past
  the stored expiry less two minutes. In that case the requests of the re-authentication
  come first, the data request (at most one, with the session as the re-authentication
  left it) after them; otherwise nothing but the data request is made, with the session as
  it was. With an authentication URL that \<open>http.NewRequest\<close> accepts, the request for the
  Google access token is among the requests made exactly in the first case, and is then
  the first of them.
\<close>

theorem reauth_exactly_within_margin:
  "(accessTokenValidUntil c - 2 * Minute \<le> Now1 env \<longrightarrow>
      (\<exists>rest. snd (snd (getReadings env c)) = snd (snd (reauth env c)) @ rest \<and>
         set rest \<subseteq> {appLaunchRequest (fst (snd (reauth env c)))} \<and>
         appLaunchRequest (fst (snd (reauth env c))) \<notin> set (snd (snd (reauth env c))))) \<and>
   (Now1 env < accessTokenValidUntil c - 2 * Minute \<longrightarrow>
      getReadings env c = (fst (requestReadings env c), c, snd (requestReadings env c)) \<and>
      set (snd (snd (getReadings env c))) \<subseteq> {appLaunchRequest c}) \<and>
   (NewRequest env ''GET'' (AuthURL (config c)) = None \<longrightarrow>
      (googleTokenRequest c \<in> set (snd (snd (getReadings env c))) \<longleftrightarrow>
         accessTokenValidUntil c - 2 * Minute \<le> Now1 env) \<and>
      (accessTokenValidUntil c - 2 * Minute \<le> Now1 env \<longrightarrow>
         hd (snd (snd (getReadings env c))) = googleTokenRequest c))"
proof (intro conjI impI)
  assume m: "accessTokenValidUntil c - 2 * Minute \<le> Now1 env"
  show "\<exists>rest. snd (snd (getReadings env c)) = snd (snd (reauth env c)) @ rest \<and>
         set rest \<subseteq> {appLaunchRequest (fst (snd (reauth env c)))} \<and>
         appLaunchRequest (fst (snd (reauth env c))) \<notin> set (snd (snd (reauth env c)))"
    using getReadings_reqs_in_margin[OF m] reauth_no_data_request by blast
next
  assume o: "Now1 env < accessTokenValidUntil c - 2 * Minute"
  show "getReadings env c = (fst (requestReadings env c), c, snd (requestReadings env c))"
    using o by (rule getReadings_outside_margin)
  then show "set (snd (snd (getReadings env c))) \<subseteq> {appLaunchRequest c}"
    using requestReadings_reqs by simp
next
  assume u: "NewRequest env ''GET'' (AuthURL (config c)) = None"
  obtain rest1 where r1: "snd (snd (reauth env c)) = googleTokenRequest c # rest1"
    using reauth_reqs[of env c] u by (auto simp: getGoogleAccessToken_reqs)
  show "googleTokenRequest c \<in> set (snd (snd (getReadings env c))) \<longleftrightarrow>
         accessTokenValidUntil c - 2 * Minute \<le> Now1 env"
  proof
    assume g: "googleTokenRequest c \<in> set (snd (snd (getReadings env c)))"
    show "accessTokenValidUntil c - 2 * Minute \<le> Now1 env"
    proof (rule ccontr)
      assume "\<not> accessTokenValidUntil c - 2 * Minute \<le> Now1 env"
      then have "set (snd (snd (getReadings env c))) \<subseteq> {appLaunchRequest c}"
        using requestReadings_reqs by (simp add: getReadings_outside_margin)
      with g have "googleTokenRequest c = appLaunchRequest c" by blast
      then show False using appLaunchRequest_not_auth(1) by metis
    qed
  next
    assume "accessTokenValidUntil c - 2 * Minute \<le> Now1 env"
    then show "googleTokenRequest c \<in> set (snd (snd (getReadings env c)))"
      using getReadings_reqs_in_margin r1 by fastforce
  qed
  assume "accessTokenValidUntil c - 2 * Minute \<le> Now1 env"
  then show "hd (snd (snd (getReadings env c))) = googleTokenRequest c"
    using getReadings_reqs_in_margin r1 by fastforce
qed

subsection \<open>A failed re-authentication\<close>

text \<open>
  C1. Let re-authentication be attempted and fail. If the second clock reading is still
  before the stored expiry, \<open>getReadings\<close> goes on with the old session: when the data
  request is answered with status 200 and a readable body, it returns the readings of that
  body. If the stored expiry has passed, it returns the re-authentication error and has
  made no data request: the requests made are those of the failed re-authentication.
\<close>

theorem failed_reauth_grace_period:
  assumes "accessTokenValidUntil c - 2 * Minute \<le> Now1 env"
    and "reauth env c = (Some err, c', reqs)"
  shows "(Now2 env < accessTokenValidUntil c \<and>
          NewRequest env ''POST'' (appLaunchURL c) = None \<and>
          client_Do env (appLaunchRequest c) = Response 200 (Content bodyString doc) \<longrightarrow>
            getReadings env c =
              (Return (Inr (parseReadings doc)), c, reqs @ [appLaunchRequest c])) \<and>
         (accessTokenValidUntil c \<le> Now2 env \<longrightarrow>
            getReadings env c =
              (Return (Inl (Errorf_w ''Failed to re-authenticate to Nest API'' err)), c, reqs) \<and>
            appLaunchRequest c \<notin> set reqs)"
proof -
  have c': "c' = c" using reauth_failure_unchanged[of env c] assms(2) by simp
  have n: "appLaunchRequest c \<notin> set reqs"
    using reauth_no_data_request[of c env c] assms(2) by simp
  show ?thesis
    using assms(2) n
    by (auto simp: getReadings_in_margin[OF assms(1)] c' requestReadings_ok)
qed

subsection \<open>The iterations over the buckets\<close>

lemma structure_step_map_of:
  "map_of (structure_step obj S) i =
     (if has_key_value (''structure.'' @ i) obj then Some (new_Structure i obj) else map_of S i)"
proof (cases "HasPrefix (bucket_key obj) ''structure.'' \<and> gj_Exists (bucket_value obj)")
  case True
  then obtain j where j: "bucket_key obj = ''structure.'' @ j"
    by (auto simp: HasPrefix_def prefix_def)
  then have t: "TrimPrefix (bucket_key obj) ''structure.'' = j"
    by (simp add: TrimPrefix_def)
  show ?thesis
    using True j t
    by (auto simp: structure_step_def Let_def update_conv' has_key_value_def new_Structure_def
        bucket_key_def[symmetric] bucket_value_def[symmetric])
next
  case False
  then have "\<not> has_key_value (''structure.'' @ i) obj"
    by (auto simp: has_key_value_def HasPrefix_def)
  with False show ?thesis
    by (auto simp: structure_step_def Let_def bucket_key_def[symmetric] bucket_value_def[symmetric])
qed

lemma structures_pass_map_of:
  "map_of (fold structure_step bs S) i =
     (if filter (has_key_value (''structure.'' @ i)) bs = [] then map_of S i
      else Some (new_Structure i (last (filter (has_key_value (''structure.'' @ i)) bs))))"
proof (induction bs rule: rev_induct)
  case Nil
  show ?case by simp
next
  case (snoc b bs)
  show ?case
    by (simp add: structure_step_map_of snoc)
qed

lemma where_step_map_of:
  "map_of (where_step obj S) i =
     (if has_key_value (''where.'' @ i) obj
      then map_option (\<lambda>s. s\<lparr>WhereNames := fold where_entry_step (bucket_wheres obj) (WhereNames s)\<rparr>)
             (map_of S i)
      else map_of S i)"
proof (cases "HasPrefix (bucket_key obj) ''where.'' \<and> gj_Exists (bucket_value obj)")
  case True
  then obtain j where j: "bucket_key obj = ''where.'' @ j"
    by (auto simp: HasPrefix_def prefix_def)
  then have t: "TrimPrefix (bucket_key obj) ''where.'' = j"
    by (simp add: TrimPrefix_def)
  show ?thesis
    using True j t
    by (auto simp: where_step_def Let_def update_conv' has_key_value_def bucket_wheres_def
        bucket_key_def[symmetric] bucket_value_def[symmetric] split: option.splits)
next
  case False
  then have "\<not> has_key_value (''where.'' @ i) obj"
    by (auto simp: has_key_value_def HasPrefix_def)
  with False show ?thesis
    by (auto simp: where_step_def Let_def bucket_key_def[symmetric] bucket_value_def[symmetric])
qed

lemma wheres_pass_map_of:
  "map_of (fold where_step bs S) i =
     map_option (\<lambda>s. s\<lparr>WhereNames := wheres_of (filter (has_key_value (''where.'' @ i)) bs) (WhereNames s)\<rparr>)
       (map_of S i)"
proof (induction bs rule: rev_induct)
  case Nil
  show ?case by (simp add: wheres_of_def option.map_ident)
next
  case (snoc b bs)
  show ?case
    by (cases "map_of S i") (simp_all add: where_step_map_of snoc wheres_of_def)
qed

lemma sensor_step_eq:
  "sensor_step S obj sens = (if is_sensor_bucket obj then sens @ [sensor_of S obj] else sens)"
  by (simp add: sensor_step_def is_sensor_bucket_def sensor_of_def Let_def bucket_key_def bucket_value_def)

lemma sensors_pass_eq:
  "fold (sensor_step S) bs sens = sens @ map (sensor_of S) (filter is_sensor_bucket bs)"
  by (induction bs arbitrary: sens) (simp_all add: sensor_step_eq)

lemma sensor_of_cong:
  "map_of S = map_of S' \<Longrightarrow> sensor_of S obj = sensor_of S' obj"
  by (simp add: sensor_of_def index_Structure_def)

lemma length_le_1_mset_eq:
  assumes "mset xs = mset ys" "length ys \<le> 1"
  shows "xs = ys"
  using assms by (cases ys; cases "tl ys") (auto simp: )

lemma filter_same_key_short:
  assumes "distinct (map k (filter Q xs))" "\<And>x. P x \<Longrightarrow> Q x \<and> k x = c"
  shows "length (filter P xs) \<le> 1"
  using assms(1)
proof (induction xs)
  case Nil
  show ?case by simp
next
  case (Cons x xs)
  show ?case
  proof (cases "P x")
    case True
    then have qx: "Q x" "k x = c" using assms(2) by auto
    have "filter P xs = []"
    proof (rule ccontr)
      assume "filter P xs \<noteq> []"
      then obtain y where y: "y \<in> set xs" "P y" by (auto simp: filter_empty_conv)
      then have "Q y" "k y = c" using assms(2) by auto
      with y have "k x \<in> k ` set (filter Q xs)" using qx by force
      with Cons.prems qx show False by simp
    qed
    with True show ?thesis by simp
  next
    case False
    have "distinct (map k (filter Q xs))" using Cons.prems by (auto split: if_splits)
    with False Cons.IH show ?thesis by simp
  qed
qed

lemma filter_perm_same_key:
  assumes "mset bs' = mset bs" "distinct (map k (filter Q bs))" "\<And>x. P x \<Longrightarrow> Q x \<and> k x = c"
  shows "filter P bs' = filter P bs"
proof -
  have "length (filter P bs) \<le> 1" using filter_same_key_short[OF assms(2,3)] by simp
  moreover have "mset (filter P bs') = mset (filter P bs)" using assms(1) by (metis mset_filter)
  ultimately show ?thesis by (rule length_le_1_mset_eq[rotated])
qed

lemma sensors_parseReadings:
  "sensors (parseReadings doc) =
     map (sensor_of (resolved (buckets_of doc))) (filter is_sensor_bucket (buckets_of doc))"
  by (simp add: parseReadings_def Let_def sensors_pass_eq resolved_def buckets_of_def)

lemma resolved_map_of:
  "map_of (resolved bs) i =
     (if filter (has_key_value (''structure.'' @ i)) bs = [] then None
      else Some \<lparr>Id = i,
                 Name = gj_String (gj_Get ''name''
                          (bucket_value (last (filter (has_key_value (''structure.'' @ i)) bs)))),
                 WhereNames = wheres_of (filter (has_key_value (''where.'' @ i)) bs) [],
                 OutsideTemperature = NaN\<rparr>)"
  by (simp add: resolved_def wheres_pass_map_of structures_pass_map_of new_Structure_def)

lemma structure_key_kind: "has_key_value (''structure.'' @ i) x \<Longrightarrow>
    is_structure_or_where x \<and> bucket_key x = ''structure.'' @ i"
  by (simp add: has_key_value_def is_structure_or_where_def HasPrefix_def)

lemma where_key_kind: "has_key_value (''where.'' @ i) x \<Longrightarrow>
    is_structure_or_where x \<and> bucket_key x = ''where.'' @ i"
  by (simp add: has_key_value_def is_structure_or_where_def HasPrefix_def)

lemma resolved_perm:
  assumes "mset bs' = mset bs" "distinct (map bucket_key (filter is_structure_or_where bs))"
  shows "map_of (resolved bs') = map_of (resolved bs)"
proof
  fix i
  have 1: "filter (has_key_value (''structure.'' @ i)) bs' = filter (has_key_value (''structure.'' @ i)) bs"
    by (rule filter_perm_same_key[OF assms]) (rule structure_key_kind)
  have 2: "filter (has_key_value (''where.'' @ i)) bs' = filter (has_key_value (''where.'' @ i)) bs"
    by (rule filter_perm_same_key[OF assms]) (rule where_key_kind)
  show "map_of (resolved bs') i = map_of (resolved bs) i"
    unfolding resolved_map_of 1 2 ..
qed

lemma filter_unique:
  assumes "distinct (map k (filter Q xs))" "\<And>x. P x \<Longrightarrow> Q x \<and> k x = c" "x \<in> set xs" "P x"
  shows "filter P xs = [x]"
proof -
  have "length (filter P xs) \<le> 1" using filter_same_key_short[OF assms(1,2)] by simp
  moreover have "x \<in> set (filter P xs)" using assms(3,4) by simp
  ultimately show ?thesis
    by (cases "filter P xs"; cases "tl (filter P xs)") auto
qed

lemma where_entry_step_map_of:
  "map_of (where_entry_step e names) w =
     (if has_where_id w e then Some (gj_String (gj_Get ''name'' (Some e))) else map_of names w)"
  by (auto simp: where_entry_step_def has_where_id_def Let_def update_conv')

lemma where_entries_map_of:
  "map_of (fold where_entry_step es names) w =
     (if filter (has_where_id w) es = [] then map_of names w
      else Some (gj_String (gj_Get ''name'' (Some (last (filter (has_where_id w) es))))))"
  by (induction es rule: rev_induct) (simp_all add: where_entry_step_map_of)

lemma where_entries_lookup:
  assumes "e \<in> set es" "has_where_id w e"
    and "\<forall>e' \<in> set es. has_where_id w e' \<longrightarrow>
           gj_String (gj_Get ''name'' (Some e')) = gj_String (gj_Get ''name'' (Some e))"
  shows "index_string (fold where_entry_step es []) w = gj_String (gj_Get ''name'' (Some e))"
proof -
  let ?f = "filter (has_where_id w) es"
  have ne: "?f \<noteq> []" using assms(1,2) by (auto simp: filter_empty_conv)
  then have "last ?f \<in> set ?f" by (rule last_in_set)
  then have "last ?f \<in> set es" "has_where_id w (last ?f)" by auto
  then have "gj_String (gj_Get ''name'' (Some (last ?f))) = gj_String (gj_Get ''name'' (Some e))"
    using assms(3) by blast
  then show ?thesis using ne by (simp add: index_string_def where_entries_map_of)
qed

lemma sensor_of_fields:
  "SerialNumber (sensor_of S kb) = bucket_field ''serial_number'' kb"
  "StructureName (sensor_of S kb) = Name (index_Structure S (bucket_field ''structure_id'' kb))"
  "WhereName (sensor_of S kb) =
     index_string (WhereNames (index_Structure S (bucket_field ''structure_id'' kb)))
       (bucket_field ''where_id'' kb)"
  by (simp_all add: sensor_of_def Let_def bucket_field_def)

lemma resolved_structure_name:
  assumes "distinct (map bucket_key (filter is_structure_or_where bs))"
    and "sb \<in> set bs" "has_key_value (''structure.'' @ i) sb"
  shows "Name (index_Structure (resolved bs) i) = bucket_field ''name'' sb"
proof -
  have 1: "filter (has_key_value (''structure.'' @ i)) bs = [sb]"
    using assms(1) _ assms(2,3)
    by (rule filter_unique[where Q = is_structure_or_where and k = bucket_key
          and c = "''structure.'' @ i"]) (rule structure_key_kind)
  have "map_of (resolved bs) i =
      Some \<lparr>Id = i, Name = gj_String (gj_Get ''name'' (bucket_value sb)),
            WhereNames = wheres_of (filter (has_key_value (''where.'' @ i)) bs) [],
            OutsideTemperature = NaN\<rparr>"
    unfolding resolved_map_of 1 by simp
  then show ?thesis
    by (simp add: index_Structure_def bucket_field_def)
qed

lemma resolved_where_name:
  assumes "distinct (map bucket_key (filter is_structure_or_where bs))"
    and "sb \<in> set bs" "has_key_value (''structure.'' @ i) sb"
    and "wb \<in> set bs" "has_key_value (''where.'' @ i) wb"
    and "e \<in> set (bucket_wheres wb)" "has_where_id w e"
    and "\<forall>e' \<in> set (bucket_wheres wb). has_where_id w e' \<longrightarrow> entry_name e' = entry_name e"
  shows "index_string (WhereNames (index_Structure (resolved bs) i)) w = entry_name e"
proof -
  have 1: "filter (has_key_value (''structure.'' @ i)) bs = [sb]"
    using assms(1) _ assms(2,3)
    by (rule filter_unique[where Q = is_structure_or_where and k = bucket_key
          and c = "''structure.'' @ i"]) (rule structure_key_kind)
  have 2: "filter (has_key_value (''where.'' @ i)) bs = [wb]"
    using assms(1) _ assms(4,5)
    by (rule filter_unique[where Q = is_structure_or_where and k = bucket_key
          and c = "''where.'' @ i"]) (rule where_key_kind)
  have "map_of (resolved bs) i =
      Some \<lparr>Id = i, Name = gj_String (gj_Get ''name'' (bucket_value sb)),
            WhereNames = wheres_of [wb] [],
            OutsideTemperature = NaN\<rparr>"
    unfolding resolved_map_of 1 2 by simp
  then have "WhereNames (index_Structure (resolved bs) i) = fold where_entry_step (bucket_wheres wb) []"
    by (simp add: index_Structure_def wheres_of_def)
  then show ?thesis
    using where_entries_lookup[OF assms(6,7)] assms(8) by (simp add: entry_name_def)
qed

lemma sensors_perm:
  assumes "mset (buckets_of doc') = mset (buckets_of doc)"
    and "distinct (map bucket_key (filter is_structure_or_where (buckets_of doc)))"
  shows "mset (sensors (parseReadings doc')) = mset (sensors (parseReadings doc))"
proof -
  have "sensor_of (resolved (buckets_of doc')) = sensor_of (resolved (buckets_of doc))"
    using resolved_perm[OF assms] by (auto intro: sensor_of_cong)
  then have "mset (sensors (parseReadings doc')) =
      image_mset (sensor_of (resolved (buckets_of doc))) (filter_mset is_sensor_bucket (mset (buckets_of doc')))"
    by (simp add: sensors_parseReadings)
  also have "\<dots> = mset (sensors (parseReadings doc))"
    unfolding assms(1) by (simp add: sensors_parseReadings)
  finally show ?thesis .
qed

lemma sensor_of_names_as_given:
  assumes "distinct (map bucket_key (filter is_structure_or_where bs))"
  shows "names_as_given bs kb (sensor_of (resolved bs) kb)"
  unfolding names_as_given_def
proof (intro ballI impI conjI)
  fix sb assume sb: "sb \<in> set bs" "has_key_value (''structure.'' @ bucket_field ''structure_id'' kb) sb"
  show "StructureName (sensor_of (resolved bs) kb) = bucket_field ''name'' sb"
    using resolved_structure_name[OF assms sb] by (simp add: sensor_of_fields)
  fix wb e
  assume wb: "wb \<in> set bs" "has_key_value (''where.'' @ bucket_field ''structure_id'' kb) wb"
    and e: "e \<in> set (bucket_wheres wb)"
    and u: "has_where_id (bucket_field ''where_id'' kb) e \<and>
            (\<forall>e' \<in> set (bucket_wheres wb).
               has_where_id (bucket_field ''where_id'' kb) e' \<longrightarrow> entry_name e' = entry_name e)"
  from u have u1: "has_where_id (bucket_field ''where_id'' kb) e"
    and u2: "\<forall>e' \<in> set (bucket_wheres wb).
               has_where_id (bucket_field ''where_id'' kb) e' \<longrightarrow> entry_name e' = entry_name e"
    by simp_all
  show "WhereName (sensor_of (resolved bs) kb) = entry_name e"
    using resolved_where_name[OF assms sb wb e u1 u2] by (simp add: sensor_of_fields)
qed

subsection \<open>Names of the sensors\<close>

text \<open>
  C3, for responses with distinct keys. Let no two \<open>structure.*\<close> or \<open>where.*\<close>
  buckets of the response share an object key. Then every sensor read comes from a
  \<open>kryptonite.*\<close> bucket and carries
  the names given in the buckets (\<open>names_as_given\<close>): the name in the structure bucket of
  its structure id and, from the where bucket of that structure, the name given to its where
  id. And for every response whose buckets are these in another order, the sensors read
  are the same (as a multiset: they come in the order of their buckets).
\<close>

theorem sensor_names_resolved_when_keys_distinct:
  assumes "distinct (map bucket_key (filter is_structure_or_where (buckets_of doc)))"
  shows "(\<forall>s \<in> set (sensors (parseReadings doc)).
            \<exists>kb \<in> set (buckets_of doc). is_sensor_bucket kb \<and>
              SerialNumber s = bucket_field ''serial_number'' kb \<and>
              names_as_given (buckets_of doc) kb s) \<and>
         (\<forall>doc'. mset (buckets_of doc') = mset (buckets_of doc) \<longrightarrow>
            mset (sensors (parseReadings doc')) = mset (sensors (parseReadings doc)))"
proof (rule conjI)
  show "\<forall>doc'. mset (buckets_of doc') = mset (buckets_of doc) \<longrightarrow>
            mset (sensors (parseReadings doc')) = mset (sensors (parseReadings doc))"
    using assms by (blast intro: sensors_perm)
  show "\<forall>s \<in> set (sensors (parseReadings doc)).
            \<exists>kb \<in> set (buckets_of doc). is_sensor_bucket kb \<and>
              SerialNumber s = bucket_field ''serial_number'' kb \<and>
              names_as_given (buckets_of doc) kb s"
  proof
    fix s assume "s \<in> set (sensors (parseReadings doc))"
    then obtain kb where kb: "kb \<in> set (buckets_of doc)" "is_sensor_bucket kb"
      and s: "s = sensor_of (resolved (buckets_of doc)) kb"
      by (auto simp: sensors_parseReadings)
    have "SerialNumber s = bucket_field ''serial_number'' kb"
      by (simp add: s sensor_of_fields)
    moreover have "names_as_given (buckets_of doc) kb s"
      unfolding s using assms by (rule sensor_of_names_as_given)
    ultimately show "\<exists>kb \<in> set (buckets_of doc). is_sensor_bucket kb \<and>
              SerialNumber s = bucket_field ''serial_number'' kb \<and>
              names_as_given (buckets_of doc) kb s"
      using kb by blast
  qed
qed

subsection \<open>A sensor whose structure is not in the response\<close>

text \<open>
  C10. Let the data request be answered with status 200 and a readable body, and let a
  \<open>kryptonite.*\<close> bucket with a value name a structure id for which the response has no
  \<open>structure.*\<close> bucket. Then the request returns readings and no error, a sensor with
  the serial number of that bucket is among them with the empty string as structure name
  and as where name, and there are as many sensors as \<open>kryptonite.*\<close> buckets with a
  value: none is dropped.
\<close>

theorem unresolved_sensor_kept_with_empty_names:
  assumes "NewRequest env ''POST'' (appLaunchURL c) = None"
    and "client_Do env (appLaunchRequest c) = Response 200 (Content bodyString doc)"
    and "kb \<in> set (buckets_of doc)" "is_sensor_bucket kb"
    and "\<forall>sb \<in> set (buckets_of doc). bucket_key sb \<noteq> ''structure.'' @ bucket_field ''structure_id'' kb"
  shows "fst (requestReadings env c) = Return (Inr (parseReadings doc)) \<and>
         (\<exists>s \<in> set (sensors (parseReadings doc)).
            SerialNumber s = bucket_field ''serial_number'' kb \<and>
            StructureName s = [] \<and> WhereName s = []) \<and>
         length (sensors (parseReadings doc)) = length (filter is_sensor_bucket (buckets_of doc))"
proof -
  let ?i = "bucket_field ''structure_id'' kb"
  have "\<forall>sb \<in> set (buckets_of doc). \<not> has_key_value (''structure.'' @ ?i) sb"
    using assms(5) unfolding has_key_value_def by blast
  then have 1: "filter (has_key_value (''structure.'' @ ?i)) (buckets_of doc) = []"
    unfolding filter_empty_conv by blast
  have "map_of (resolved (buckets_of doc)) ?i = None"
    unfolding resolved_map_of 1 by simp
  then have "index_Structure (resolved (buckets_of doc)) ?i = zero_Structure"
    by (simp add: index_Structure_def)
  then have "StructureName (sensor_of (resolved (buckets_of doc)) kb) = []"
    "WhereName (sensor_of (resolved (buckets_of doc)) kb) = []"
    by (simp_all add: sensor_of_fields zero_Structure_def index_string_def)
  moreover have "sensor_of (resolved (buckets_of doc)) kb \<in> set (sensors (parseReadings doc))"
    using assms(3,4) by (simp add: sensors_parseReadings)
  ultimately have "\<exists>s \<in> set (sensors (parseReadings doc)).
            SerialNumber s = bucket_field ''serial_number'' kb \<and>
            StructureName s = [] \<and> WhereName s = []"
    by (intro bexI[of _ "sensor_of (resolved (buckets_of doc)) kb"]) (simp_all add: sensor_of_fields)
  moreover have "length (sensors (parseReadings doc)) = length (filter is_sensor_bucket (buckets_of doc))"
    by (simp add: sensors_parseReadings)
  moreover have "fst (requestReadings env c) = Return (Inr (parseReadings doc))"
    by (simp add: requestReadings_ok[OF assms(1,2)])
  ultimately show ?thesis by blast
qed

subsection \<open>The properties on the example responses\<close>

lemma example_buckets:
  "buckets_of example_buckets_doc =
     [example_structure_bucket, example_where_bucket, example_sensor_bucket,
      example_stray_sensor_bucket]"
  "buckets_of example_buckets_doc_reordered =
     [example_stray_sensor_bucket, example_sensor_bucket, example_where_bucket,
      example_structure_bucket]"
  "buckets_of example_duplicate_doc =
     [example_structure_bucket, example_structure_bucket_again, example_sensor_bucket]"
  "buckets_of example_duplicate_doc_reordered =
     [example_structure_bucket_again, example_structure_bucket, example_sensor_bucket]"
  by (simp_all add: buckets_of_def example_buckets_doc_def example_buckets_doc_reordered_def
      example_duplicate_doc_def example_duplicate_doc_reordered_def values_of_array)

lemma example_bucket_keys:
  "bucket_key example_structure_bucket = ''structure.s1''"
  "bucket_key example_structure_bucket_again = ''structure.s1''"
  "bucket_key example_where_bucket = ''where.s1''"
  "bucket_key example_sensor_bucket = ''kryptonite.k1''"
  "bucket_key example_stray_sensor_bucket = ''kryptonite.k2''"
  by (simp_all add: bucket_key_def example_structure_bucket_def example_structure_bucket_again_def
      example_where_bucket_def example_sensor_bucket_def example_stray_sensor_bucket_def jstr_def)

lemma example_bucket_kinds:
  "is_structure_or_where example_structure_bucket"
  "is_structure_or_where example_structure_bucket_again"
  "is_structure_or_where example_where_bucket"
  "\<not> is_structure_or_where example_sensor_bucket"
  "\<not> is_structure_or_where example_stray_sensor_bucket"
  "\<not> is_sensor_bucket example_structure_bucket"
  "\<not> is_sensor_bucket example_structure_bucket_again"
  "\<not> is_sensor_bucket example_where_bucket"
  by (simp_all add: is_structure_or_where_def is_sensor_bucket_def example_bucket_keys HasPrefix_def)

lemma example_values_exist:
  "gj_Exists (bucket_value example_structure_bucket)"
  "gj_Exists (bucket_value example_structure_bucket_again)"
  "gj_Exists (bucket_value example_where_bucket)"
  "gj_Exists (bucket_value example_sensor_bucket)"
  "gj_Exists (bucket_value example_stray_sensor_bucket)"
  by (simp_all add: bucket_value_def example_structure_bucket_def example_structure_bucket_again_def
      example_where_bucket_def example_sensor_bucket_def example_stray_sensor_bucket_def)

lemma example_sensor_buckets:
  "is_sensor_bucket example_sensor_bucket"
  "is_sensor_bucket example_stray_sensor_bucket"
  by (simp_all add: is_sensor_bucket_def example_bucket_keys HasPrefix_def example_values_exist)

lemma example_sensor_fields:
  "bucket_field ''structure_id'' example_sensor_bucket = ''s1''"
  "bucket_field ''where_id'' example_sensor_bucket = ''w1''"
  "bucket_field ''serial_number'' example_sensor_bucket = ''22AA01AC123456AB''"
  "bucket_field ''structure_id'' example_stray_sensor_bucket = ''s9''"
  "bucket_field ''where_id'' example_stray_sensor_bucket = ''w1''"
  "bucket_field ''serial_number'' example_stray_sensor_bucket = ''22AA01AC654321BA''"
  by (simp_all add: bucket_field_def bucket_value_def example_sensor_bucket_def
      example_stray_sensor_bucket_def jstr_def)

lemma example_key_values:
  "has_key_value k example_structure_bucket \<longleftrightarrow> k = ''structure.s1''"
  "has_key_value k example_structure_bucket_again \<longleftrightarrow> k = ''structure.s1''"
  "has_key_value k example_where_bucket \<longleftrightarrow> k = ''where.s1''"
  "has_key_value k example_sensor_bucket \<longleftrightarrow> k = ''kryptonite.k1''"
  "has_key_value k example_stray_sensor_bucket \<longleftrightarrow> k = ''kryptonite.k2''"
  by (auto simp: has_key_value_def example_bucket_keys example_values_exist)

lemma example_names:
  "gj_String (gj_Get ''name'' (bucket_value example_structure_bucket)) = ''Home''"
  "gj_String (gj_Get ''name'' (bucket_value example_structure_bucket_again)) = ''Cabin''"
  "index_string (fold where_entry_step (bucket_wheres example_where_bucket) []) ''w1'' = ''Living Room''"
  by (simp_all add: bucket_value_def bucket_wheres_def example_structure_bucket_def
      example_structure_bucket_again_def example_where_bucket_def jstr_def values_of_array
      where_entry_step_def index_string_def Let_def)

lemma example_resolved:
  "index_Structure (resolved [example_structure_bucket, example_where_bucket, example_sensor_bucket,
      example_stray_sensor_bucket]) ''s1'' =
     \<lparr>Id = ''s1'', Name = ''Home'',
      WhereNames = fold where_entry_step (bucket_wheres example_where_bucket) [],
      OutsideTemperature = NaN\<rparr>"
  "index_Structure (resolved [example_structure_bucket, example_where_bucket, example_sensor_bucket,
      example_stray_sensor_bucket]) ''s9'' = zero_Structure"
  "Name (index_Structure (resolved [example_structure_bucket, example_structure_bucket_again,
      example_sensor_bucket]) ''s1'') = ''Cabin''"
  "Name (index_Structure (resolved [example_structure_bucket_again, example_structure_bucket,
      example_sensor_bucket]) ''s1'') = ''Home''"
  by (simp_all add: index_Structure_def resolved_map_of example_key_values
      example_names wheres_of_def)

lemma index_string_Nil: "index_string [] k = []"
  by (simp add: index_string_def)

lemma example_sensors:
  "map (\<lambda>s. (SerialNumber s, StructureName s, WhereName s)) (sensors (parseReadings example_buckets_doc)) =
     [(''22AA01AC123456AB'', ''Home'', ''Living Room''), (''22AA01AC654321BA'', [], [])]"
  "map StructureName (sensors (parseReadings example_duplicate_doc)) = [''Cabin'']"
  "map StructureName (sensors (parseReadings example_duplicate_doc_reordered)) = [''Home'']"
  by (simp_all add: sensors_parseReadings example_buckets example_bucket_kinds example_sensor_buckets
      sensor_of_fields example_sensor_fields example_resolved example_names zero_Structure_def
      index_string_Nil)

lemma example_distinct_keys:
  "distinct (map bucket_key (filter is_structure_or_where (buckets_of example_buckets_doc)))"
  by (simp add: example_buckets example_bucket_kinds example_bucket_keys)

lemma example_reordered:
  "mset (buckets_of example_buckets_doc_reordered) = mset (buckets_of example_buckets_doc)"
  "mset (buckets_of example_duplicate_doc_reordered) = mset (buckets_of example_duplicate_doc)"
  by (simp_all add: example_buckets)

theorem sensor_names_resolved_when_keys_distinct_witness:
  "distinct (map bucket_key (filter is_structure_or_where (buckets_of example_buckets_doc))) \<and>
   mset (buckets_of example_buckets_doc_reordered) = mset (buckets_of example_buckets_doc) \<and>
   mset (sensors (parseReadings example_buckets_doc_reordered)) =
     mset (sensors (parseReadings example_buckets_doc)) \<and>
   map (\<lambda>s. (SerialNumber s, StructureName s, WhereName s))
     (sensors (parseReadings example_buckets_doc)) =
     [(''22AA01AC123456AB'', ''Home'', ''Living Room''), (''22AA01AC654321BA'', [], [])]"
proof -
  have "mset (sensors (parseReadings example_buckets_doc_reordered)) =
     mset (sensors (parseReadings example_buckets_doc))"
    using sensor_names_resolved_when_keys_distinct[OF example_distinct_keys] example_reordered(1)
    by blast
  then show ?thesis
    using example_distinct_keys example_reordered(1) example_sensors(1) by blast
qed

text \<open>
  C3 as stated, for every response, does not hold. Two \<open>structure.*\<close> buckets with the
  same object key both write the entry of that key, so the later one decides: the same
  buckets in another order give the sensor another structure name.
\<close>

theorem sensor_names_follow_last_duplicate:
  "mset (buckets_of example_duplicate_doc_reordered) = mset (buckets_of example_duplicate_doc) \<and>
   map StructureName (sensors (parseReadings example_duplicate_doc)) = [''Cabin''] \<and>
   map StructureName (sensors (parseReadings example_duplicate_doc_reordered)) = [''Home''] \<and>
   mset (sensors (parseReadings example_duplicate_doc_reordered)) \<noteq>
     mset (sensors (parseReadings example_duplicate_doc))"
proof -
  have "mset (sensors (parseReadings example_duplicate_doc_reordered)) \<noteq>
     mset (sensors (parseReadings example_duplicate_doc))"
  proof
    assume "mset (sensors (parseReadings example_duplicate_doc_reordered)) =
     mset (sensors (parseReadings example_duplicate_doc))"
    then have "mset (map StructureName (sensors (parseReadings example_duplicate_doc_reordered))) =
     mset (map StructureName (sensors (parseReadings example_duplicate_doc)))"
      by (metis mset_map)
    then show False by (simp add: example_sensors)
  qed
  then show ?thesis using example_reordered(2) example_sensors(2,3) by blast
qed


lemma example_app_env_fields:
  "Now1 (example_app_env now1 now2 auth_up) = now1"
  "Now2 (example_app_env now1 now2 auth_up) = now2"
  "NewRequest (example_app_env now1 now2 auth_up) m u = None"
  by (simp_all add: example_app_env_def)

lemma example_session_fields:
  "accessTokenValidUntil (example_session expiry) = expiry"
  "userId (example_session expiry) = ''user.1''"
  "accessToken (example_session expiry) = ''g.0.jwt0''"
  by (simp_all add: example_session_def)

lemma example_data_request:
  "client_Do (example_app_env now1 now2 auth_up) (appLaunchRequest c) =
     Response 200 (Content (gj_String (Some example_buckets_doc)) example_buckets_doc)"
  by (simp add: example_app_env_def appLaunchRequest_def appLaunchURL_def)

lemma example_requestReadings:
  "requestReadings (example_app_env now1 now2 auth_up) c =
     (Return (Inr (parseReadings example_buckets_doc)), [appLaunchRequest c])"
  by (rule requestReadings_ok[OF example_app_env_fields(3) example_data_request])

lemma example_google_token:
  "getGoogleAccessToken (example_app_env now1 now2 True) c = (Inr ''ya29.a0'', [googleTokenRequest c])"
  "getGoogleAccessToken (example_app_env now1 now2 False) c =
     (Inl (Errorf_w ''Request failed'' (Lib ''context deadline exceeded'')), [googleTokenRequest c])"
  by (simp_all add: getGoogleAccessToken_def example_app_env_def googleTokenRequest_def
      example_google_token_doc_def jstr_def Let_def)

lemma example_jwt:
  "getNestJwt (example_app_env now1 now2 auth_up) c ''ya29.a0'' =
     (Inr (''g.0.jwt1'', ''user.1'', 1793534400000000000), [jwtRequest ''ya29.a0''])"
  by (simp add: getNestJwt_def example_app_env_def jwtRequest_def gj_GetPath_def
      example_jwt_doc_def jstr_def Let_def)

lemma example_reauth:
  "reauth (example_app_env now1 now2 True) c =
     (None,
      c\<lparr>accessToken := ''g.0.jwt1'', userId := ''user.1'',
        accessTokenValidUntil := 1793534400000000000\<rparr>,
      [googleTokenRequest c, jwtRequest ''ya29.a0''])"
  "reauth (example_app_env now1 now2 False) c =
     (Some (Errorf_w ''Failed to get Google Account access token''
        (Errorf_w ''Request failed'' (Lib ''context deadline exceeded''))),
      c, [googleTokenRequest c])"
  by (simp_all add: reauth_def example_google_token example_jwt)

theorem session_replaced_only_as_a_whole_witness:
  "getGoogleAccessToken (example_app_env 0 0 False) (example_session 0) =
     (Inl (Errorf_w ''Request failed'' (Lib ''context deadline exceeded'')),
      [googleTokenRequest (example_session 0)]) \<and>
   fst (reauth (example_app_env 0 0 False) (example_session 0)) \<noteq> None \<and>
   fst (snd (reauth (example_app_env 0 0 False) (example_session 0))) = example_session 0 \<and>
   reauth (example_app_env 0 0 True) (example_session 0) =
     (None,
      (example_session 0)\<lparr>accessToken := ''g.0.jwt1'', userId := ''user.1'',
        accessTokenValidUntil := 1793534400000000000\<rparr>,
      [googleTokenRequest (example_session 0), jwtRequest ''ya29.a0''])"
proof -
  have "fst (reauth (example_app_env 0 0 False) (example_session 0)) \<noteq> None \<and>
      fst (snd (reauth (example_app_env 0 0 False) (example_session 0))) = example_session 0"
    using session_replaced_only_as_a_whole[of "example_app_env 0 0 False" "example_session 0"]
      example_google_token(2)[of 0 0 "example_session 0"]
    by blast
  then show ?thesis
    using example_google_token(2)[of 0 0 "example_session 0"]
      example_reauth(1)[of 0 0 "example_session 0"]
    by blast
qed

theorem reauth_exactly_within_margin_witness:
  "accessTokenValidUntil (example_session (1 * Minute)) - 2 * Minute \<le> Now1 (example_app_env 0 0 True) \<and>
   hd (snd (snd (getReadings (example_app_env 0 0 True) (example_session (1 * Minute))))) =
     googleTokenRequest (example_session (1 * Minute)) \<and>
   googleTokenRequest (example_session (1 * Minute)) \<in>
     set (snd (snd (getReadings (example_app_env 0 0 True) (example_session (1 * Minute))))) \<and>
   Now1 (example_app_env 0 0 True) < accessTokenValidUntil (example_session (10 * Minute)) - 2 * Minute \<and>
   googleTokenRequest (example_session (10 * Minute)) \<notin>
     set (snd (snd (getReadings (example_app_env 0 0 True) (example_session (10 * Minute))))) \<and>
   snd (snd (getReadings (example_app_env 0 0 True) (example_session (10 * Minute)))) =
     [appLaunchRequest (example_session (10 * Minute))]"
proof -
  have in_margin: "accessTokenValidUntil (example_session (1 * Minute)) - 2 * Minute \<le>
      Now1 (example_app_env 0 0 True)"
    by (simp add: example_session_fields example_app_env_fields Minute_def)
  have outside: "Now1 (example_app_env 0 0 True) <
      accessTokenValidUntil (example_session (10 * Minute)) - 2 * Minute"
    by (simp add: example_session_fields example_app_env_fields Minute_def)
  have url: "NewRequest (example_app_env 0 0 True) ''GET'' (AuthURL (config c)) = None"
    for c :: app_Collector
    by (rule example_app_env_fields)
  note url1 = url[of "example_session (1 * Minute)"]
  note url10 = url[of "example_session (10 * Minute)"]
  note one = reauth_exactly_within_margin[of "example_session (1 * Minute)" "example_app_env 0 0 True"]
  note ten = reauth_exactly_within_margin[of "example_session (10 * Minute)" "example_app_env 0 0 True"]
  have 1: "hd (snd (snd (getReadings (example_app_env 0 0 True) (example_session (1 * Minute))))) =
     googleTokenRequest (example_session (1 * Minute))"
    using one in_margin url1 by blast
  have 2: "googleTokenRequest (example_session (1 * Minute)) \<in>
     set (snd (snd (getReadings (example_app_env 0 0 True) (example_session (1 * Minute)))))"
    using one in_margin url1 by blast
  have 3: "googleTokenRequest (example_session (10 * Minute)) \<notin>
     set (snd (snd (getReadings (example_app_env 0 0 True) (example_session (10 * Minute)))))"
    using ten outside url10 by (metis not_less)
  have 4: "snd (snd (getReadings (example_app_env 0 0 True) (example_session (10 * Minute)))) =
     [appLaunchRequest (example_session (10 * Minute))]"
    using ten outside by (simp add: example_requestReadings)
  show ?thesis using in_margin outside 1 2 3 4 by blast
qed

theorem failed_reauth_grace_period_witness:
  "getReadings (example_app_env 0 30000000000 False) (example_session 60000000000) =
     (Return (Inr (parseReadings example_buckets_doc)), example_session 60000000000,
      [googleTokenRequest (example_session 60000000000),
       appLaunchRequest (example_session 60000000000)]) \<and>
   getReadings (example_app_env 0 90000000000 False) (example_session 60000000000) =
     (Return (Inl (Errorf_w ''Failed to re-authenticate to Nest API''
        (Errorf_w ''Failed to get Google Account access token''
          (Errorf_w ''Request failed'' (Lib ''context deadline exceeded''))))),
      example_session 60000000000,
      [googleTokenRequest (example_session 60000000000)])"
proof -
  let ?c = "example_session 60000000000"
  have m: "accessTokenValidUntil ?c - 2 * Minute \<le> Now1 (example_app_env 0 now2 False)" for now2
    by (simp add: example_session_fields example_app_env_fields Minute_def)
  have a: "getReadings (example_app_env 0 30000000000 False) ?c =
     (Return (Inr (parseReadings example_buckets_doc)), ?c,
      [googleTokenRequest ?c] @ [appLaunchRequest ?c])"
    using failed_reauth_grace_period[where env = "example_app_env 0 30000000000 False" and c = ?c
        and bodyString = "gj_String (Some example_buckets_doc)" and doc = example_buckets_doc,
        OF m example_reauth(2)]
    by (simp add: example_app_env_fields example_session_fields example_data_request)
  have b: "getReadings (example_app_env 0 90000000000 False) ?c =
     (Return (Inl (Errorf_w ''Failed to re-authenticate to Nest API''
        (Errorf_w ''Failed to get Google Account access token''
          (Errorf_w ''Request failed'' (Lib ''context deadline exceeded''))))),
      ?c, [googleTokenRequest ?c])"
    using failed_reauth_grace_period[where env = "example_app_env 0 90000000000 False" and c = ?c,
        OF m example_reauth(2)]
    by (simp add: example_app_env_fields example_session_fields)
  show ?thesis using a b by simp
qed

theorem unresolved_sensor_kept_with_empty_names_witness:
  "client_Do (example_app_env 0 0 True) (appLaunchRequest (example_session (10 * Minute))) =
     Response 200 (Content (gj_String (Some example_buckets_doc)) example_buckets_doc) \<and>
   example_stray_sensor_bucket \<in> set (buckets_of example_buckets_doc) \<and>
   is_sensor_bucket example_stray_sensor_bucket \<and>
   bucket_field ''structure_id'' example_stray_sensor_bucket = ''s9'' \<and>
   map bucket_key (buckets_of example_buckets_doc) =
     [''structure.s1'', ''where.s1'', ''kryptonite.k1'', ''kryptonite.k2''] \<and>
   fst (requestReadings (example_app_env 0 0 True) (example_session (10 * Minute))) =
     Return (Inr (parseReadings example_buckets_doc)) \<and>
   (\<exists>s \<in> set (sensors (parseReadings example_buckets_doc)).
      SerialNumber s = ''22AA01AC654321BA'' \<and> StructureName s = [] \<and> WhereName s = []) \<and>
   length (sensors (parseReadings example_buckets_doc)) = 2"
proof -
  have k: "map bucket_key (buckets_of example_buckets_doc) =
     [''structure.s1'', ''where.s1'', ''kryptonite.k1'', ''kryptonite.k2'']"
    by (simp add: example_buckets example_bucket_keys)
  have m: "example_stray_sensor_bucket \<in> set (buckets_of example_buckets_doc)"
    by (simp add: example_buckets)
  have n: "\<forall>sb \<in> set (buckets_of example_buckets_doc).
      bucket_key sb \<noteq> ''structure.'' @ bucket_field ''structure_id'' example_stray_sensor_bucket"
    by (simp add: example_buckets example_bucket_keys example_sensor_fields)
  have f: "filter is_sensor_bucket (buckets_of example_buckets_doc) =
      [example_sensor_bucket, example_stray_sensor_bucket]"
    by (simp add: example_buckets example_bucket_kinds example_sensor_buckets)
  note t = unresolved_sensor_kept_with_empty_names[where env = "example_app_env 0 0 True"
      and c = "example_session (10 * Minute)", OF example_app_env_fields(3) example_data_request
      m example_sensor_buckets(2) n]
  have 1: "fst (requestReadings (example_app_env 0 0 True) (example_session (10 * Minute))) =
     Return (Inr (parseReadings example_buckets_doc))"
    using t by blast
  have 2: "\<exists>s \<in> set (sensors (parseReadings example_buckets_doc)).
      SerialNumber s = ''22AA01AC654321BA'' \<and> StructureName s = [] \<and> WhereName s = []"
    using t by (simp add: example_sensor_fields)
  have 3: "length (sensors (parseReadings example_buckets_doc)) = 2"
    using t by (simp add: f)
  show ?thesis
    using example_data_request[of 0 0 True "example_session (10 * Minute)"] m
      example_sensor_buckets(2) example_sensor_fields(4) k 1 2 3
    by blast
qed

end
